theory Spec2Isabelle
  imports Main
begin

section \<open>Python strings\<close>

text \<open>
  Strings are lists of ASCII characters. \<open>isspace\<close> is the whitespace class that
  \<open>str.strip()\<close> and \<open>str.split()\<close> use on ASCII text; \<open>lower\<close> is \<open>str.lower()\<close> on
  ASCII text. Case mapping of characters beyond ASCII is outside the model.
\<close>

definition isspace :: "char \<Rightarrow> bool" where
  "isspace c = (c \<in> set [CHR 0x09, CHR 0x0A, CHR 0x0B, CHR 0x0C, CHR 0x0D,
                            CHR 0x1C, CHR 0x1D, CHR 0x1E, CHR 0x1F, CHR 0x20])"

definition strip_chars :: "(char \<Rightarrow> bool) \<Rightarrow> string \<Rightarrow> string" where
  "strip_chars p s = rev (dropWhile p (rev (dropWhile p s)))"

definition strip :: "string \<Rightarrow> string" where
  "strip s = strip_chars isspace s"

definition lower_char :: "char \<Rightarrow> char" where
  "lower_char c =
     (case map_of (zip ''ABCDEFGHIJKLMNOPQRSTUVWXYZ'' ''abcdefghijklmnopqrstuvwxyz'') c of
        Some d \<Rightarrow> d
      | None \<Rightarrow> c)"

definition lower :: "string \<Rightarrow> string" where
  "lower s = map lower_char s"

text \<open>\<open>s.split(maxsplit=1)\<close>: at most two parts, none for a blank string.\<close>

definition split_maxsplit1 :: "string \<Rightarrow> string list" where
  "split_maxsplit1 s =
     (let s1 = dropWhile isspace s in
      if s1 = [] then []
      else
        let w = takeWhile (\<lambda>c. \<not> isspace c) s1;
            r = dropWhile isspace (dropWhile (\<lambda>c. \<not> isspace c) s1)
        in if r = [] then [w] else [w, r])"

text \<open>\<open>sub in s\<close> on strings.\<close>

fun str_in :: "string \<Rightarrow> string \<Rightarrow> bool" where
  "str_in sub [] = (sub = [])"
| "str_in sub (c # cs) = (take (length sub) (c # cs) = sub \<or> str_in sub cs)"

text \<open>\<open>str(n)\<close> of an integer.\<close>

fun str_nat :: "nat \<Rightarrow> string" where
  "str_nat n =
     (if n < 10 then [''0123456789'' ! n]
      else str_nat (n div 10) @ [''0123456789'' ! (n mod 10)])"

declare str_nat.simps [simp del]

definition str_int :: "int \<Rightarrow> string" where
  "str_int i = (if i < 0 then CHR ''-'' # str_nat (nat (- i)) else str_nat (nat i))"


section \<open>Enums, exceptions, JSON values\<close>

datatype WaitlistStatus = PENDING | CONFIRMED | INVITED | ACTIVE

text \<open>\<open>BrevoSyncStatus.PENDING\<close> is written \<open>SYNC_PENDING\<close>: the name is taken above.\<close>

datatype BrevoSyncStatus = SUCCESS | FAILED | SYNC_PENDING

fun sync_status_value :: "BrevoSyncStatus \<Rightarrow> string" where
  "sync_status_value SUCCESS = ''success''"
| "sync_status_value FAILED = ''failed''"
| "sync_status_value SYNC_PENDING = ''pending''"

text \<open>
  The exceptions that occur. Exceptions raised by a library carry the text that \<open>str(e)\<close>
  gives; \<open>ApiException\<close> carries \<open>status\<close>, \<open>reason\<close>, \<open>str(body)\<close> and \<open>str(e)\<close>.
  \<open>Psycopg2Error\<close> is any \<open>psycopg2.Error\<close> that is not an \<open>IntegrityError\<close>;
  \<open>PyException\<close> is any other \<open>Exception\<close>.
\<close>

datatype exn =
    HTTPException nat string
  | Psycopg2Error string
  | IntegrityError string
  | ApiException nat string string string
  | IndexError string
  | RuntimeError string
  | PyException string

fun exn_str :: "exn \<Rightarrow> string" where
  "exn_str (HTTPException sc detail) = str_nat sc @ '': '' @ detail"
| "exn_str (Psycopg2Error t) = t"
| "exn_str (IntegrityError t) = t"
| "exn_str (ApiException st reason body t) = t"
| "exn_str (IndexError t) = t"
| "exn_str (RuntimeError t) = t"
| "exn_str (PyException t) = t"

text \<open>What a call into a library does: it returns a value or raises.\<close>

datatype 'a outcome = Returns 'a | Raises exn

text \<open>Points in time (\<open>datetime\<close>), totally ordered.\<close>

type_synonym timestamp = nat

text \<open>
  JSON values. \<open>JIso t\<close> is the string \<open>t.isoformat()\<close>, kept symbolic. A dict is an
  association list in insertion order.
\<close>

datatype json = JNull | JBool bool | JInt int | JStr string | JIso timestamp
  | JObj "(string \<times> json) list"

fun opt_str :: "string option \<Rightarrow> json" where
  "opt_str None = JNull"
| "opt_str (Some s) = JStr s"


section \<open>The waitlist table\<close>

record waitlist_row =
  row_id :: nat
  email :: string
  name :: "string option"
  referral_source :: "string option"
  status :: WaitlistStatus
  brevo_contact_id :: "string option"
  brevo_sync_status :: BrevoSyncStatus
  brevo_synced_at :: "timestamp option"
  created_at :: timestamp

text \<open>The table in insertion order, and the next value of the \<open>SERIAL\<close> sequence.\<close>

record db =
  rows :: "waitlist_row list"
  next_id :: nat

text \<open>The columns that the statements return: \<open>id, email, name, status, created_at\<close>.\<close>

record returned_row =
  ret_id :: nat
  ret_email :: string
  ret_name :: "string option"
  ret_status :: WaitlistStatus
  ret_created_at :: timestamp

record entry_data = returned_row +
  position :: nat

definition returning :: "waitlist_row \<Rightarrow> returned_row" where
  "returning r = \<lparr>ret_id = row_id r, ret_email = email r, ret_name = name r,
                   ret_status = status r, ret_created_at = created_at r\<rparr>"

text \<open>\<open>SELECT ... FROM waitlist WHERE email = %s\<close>, then \<open>fetchone()\<close>.\<close>

definition select_by_email :: "string \<Rightarrow> db \<Rightarrow> returned_row option" where
  "select_by_email e d = map_option returning (find (\<lambda>r. email r = e) (rows d))"

text \<open>\<open>SELECT COUNT(*) FROM waitlist\<close>.\<close>

definition select_count :: "db \<Rightarrow> nat" where
  "select_count d = length (rows d)"

text \<open>\<open>SELECT COUNT(*) FROM waitlist WHERE created_at <= %s\<close>.\<close>

definition select_count_upto :: "timestamp \<Rightarrow> db \<Rightarrow> nat" where
  "select_count_upto t d = length (filter (\<lambda>r. created_at r \<le> t) (rows d))"

text \<open>
  \<open>INSERT INTO waitlist ... RETURNING ...\<close>: the statement takes the next value of the
  \<open>SERIAL\<close> sequence. The column \<open>email\<close> is \<open>UNIQUE\<close>, so a row whose email is in the
  table raises \<open>IntegrityError\<close>; the value of the sequence is then used up, and the
  table returned with the exception is the one that a rollback leaves.
\<close>

definition insert_row ::
  "string \<Rightarrow> string option \<Rightarrow> string option \<Rightarrow> WaitlistStatus \<Rightarrow> string option \<Rightarrow>
   BrevoSyncStatus \<Rightarrow> timestamp option \<Rightarrow> timestamp \<Rightarrow> db \<Rightarrow> (exn + returned_row) \<times> db" where
  "insert_row e n ref st cid sync synced created d =
     (if e \<in> set (map email (rows d))
      then (Inl (IntegrityError ''duplicate key value violates unique constraint''),
            d\<lparr>next_id := next_id d + 1\<rparr>)
      else
        let r = \<lparr>row_id = next_id d, email = e, name = n, referral_source = ref, status = st,
                 brevo_contact_id = cid, brevo_sync_status = sync, brevo_synced_at = synced,
                 created_at = created\<rparr>
        in (Inr (returning r), d\<lparr>rows := rows d @ [r], next_id := next_id d + 1\<rparr>))"

text \<open>
  What the driver does to one use of \<open>get_db_connection\<close>, when it fails.
  \<open>ConnectFails ex\<close>: \<open>psycopg2.connect\<close> raises \<open>ex\<close>, so there is no connection to roll
  back. \<open>StatementFails ex\<close>: a statement or the commit raises \<open>ex\<close> and the rollback in
  the handler succeeds. \<open>ConnectionBreaks ex ex'\<close>: a statement or the commit raises
  \<open>ex\<close> and \<open>conn.rollback()\<close> in the handler raises \<open>ex'\<close>.
\<close>

datatype db_fault = ConnectFails exn | StatementFails exn | ConnectionBreaks exn exn

text \<open>The two handlers of \<open>get_db_connection\<close>, when they run to their \<open>raise\<close>.\<close>

fun db_error :: "exn \<Rightarrow> exn" where
  "db_error (Psycopg2Error t) = HTTPException 500 ''Database operation failed''"
| "db_error (IntegrityError t) = HTTPException 500 ''Database operation failed''"
| "db_error e = HTTPException 500 ''An unexpected error occurred''"

text \<open>
  The exception that leaves \<open>get_db_connection\<close> on a fault: the \<open>HTTPException\<close> of the
  handler, or the exception of the rollback, which no handler catches.
\<close>

fun raised_by :: "db_fault \<Rightarrow> exn" where
  "raised_by (ConnectFails ex) = db_error ex"
| "raised_by (StatementFails ex) = db_error ex"
| "raised_by (ConnectionBreaks ex ex') = ex'"

text \<open>
  \<open>get_db_connection\<close>: the body runs on the connection and is committed. An exception of
  the body is rolled back and replaced by the \<open>HTTPException\<close> of the handler; with a
  fault of the driver nothing is written.
\<close>

definition get_db_connection ::
  "db_fault option \<Rightarrow> (db \<Rightarrow> (exn + 'a) \<times> db) \<Rightarrow> db \<Rightarrow> (exn + 'a) \<times> db" where
  "get_db_connection fault body d =
     (case fault of
        Some f \<Rightarrow> (Inl (raised_by f), d)
      | None \<Rightarrow>
          (case body d of
             (Inl ex, d') \<Rightarrow> (Inl (db_error ex), d')
           | (Inr x, d') \<Rightarrow> (Inr x, d')))"


section \<open>DatabaseService\<close>

definition check_email_exists ::
  "db_fault option \<Rightarrow> string \<Rightarrow> db \<Rightarrow> exn + returned_row option" where
  "check_email_exists fault e d =
     fst (get_db_connection fault (\<lambda>d. (Inr (select_by_email e d), d)) d)"

definition get_waitlist_count :: "db_fault option \<Rightarrow> db \<Rightarrow> exn + nat" where
  "get_waitlist_count fault d =
     fst (get_db_connection fault (\<lambda>d. (Inr (select_count d), d)) d)"

text \<open>
  \<open>add_waitlist_entry\<close>: \<open>now_synced\<close> and \<open>now_created\<close> are the two readings of
  \<open>datetime.now()\<close> in the parameters of the insert. The position is counted on the
  connection that inserted the row. The handler for \<open>IntegrityError\<close> sits outside the
  \<open>with\<close> block, so it sees what \<open>get_db_connection\<close> lets out.
\<close>

definition add_waitlist_entry ::
  "db_fault option \<Rightarrow> timestamp \<Rightarrow> timestamp \<Rightarrow> string \<Rightarrow> string option \<Rightarrow> string option \<Rightarrow>
   string option \<Rightarrow> BrevoSyncStatus \<Rightarrow> db \<Rightarrow> (exn + entry_data) \<times> db" where
  "add_waitlist_entry fault now_synced now_created e n ref cid sync d =
     (case get_db_connection fault
             (\<lambda>d. case insert_row e n ref PENDING cid sync
                              (if sync = SUCCESS then Some now_synced else None) now_created d of
                     (Inl ex, d') \<Rightarrow> (Inl ex, d')
                   | (Inr result, d') \<Rightarrow>
                       (Inr \<lparr>ret_id = ret_id result, ret_email = ret_email result,
                             ret_name = ret_name result, ret_status = ret_status result,
                             ret_created_at = ret_created_at result,
                             position = select_count_upto (ret_created_at result) d'\<rparr>, d'))
             d of
        (Inl (IntegrityError t), d') \<Rightarrow> (Inl (HTTPException 409 ''Email already registered''), d')
      | (Inl ex, d') \<Rightarrow> (Inl ex, d')
      | (Inr entry, d') \<Rightarrow> (Inr entry, d'))"


section \<open>BrevoService\<close>

record account =
  account_email :: string
  company_name :: "string option"
  plan_type :: "string option"

definition test_connection :: "account outcome \<Rightarrow> (string \<times> json) list" where
  "test_connection reply =
     (case reply of
        Returns a \<Rightarrow>
          [(''connected'', JBool True), (''account_email'', JStr (account_email a)),
           (''company_name'', opt_str (company_name a)), (''plan_type'', opt_str (plan_type a))]
      | Raises e \<Rightarrow> [(''connected'', JBool False), (''error'', JStr (exn_str e))])"

text \<open>The dict that \<open>add_contact_to_list\<close> returns; a key that is not set is \<open>None\<close>.\<close>

record brevo_result =
  br_status :: BrevoSyncStatus
  br_contact_id :: "string option"
  br_message :: "string option"
  br_error :: "string option"
  br_error_code :: "string option"

text \<open>
  The calls of one request in the order they are made: the request sent to the contact
  API, and the call of \<open>add_waitlist_entry\<close>.
\<close>

datatype event =
    CreateContact string "(string \<times> json) list"
  | AddWaitlistEntry string

fun name_attributes :: "string option \<Rightarrow> exn + (string \<times> json) list" where
  "name_attributes None = Inr []"
| "name_attributes (Some n) =
     (if n = [] then Inr []
      else case split_maxsplit1 n of
             [] \<Rightarrow> Inl (IndexError ''list index out of range'')
           | p0 # rest \<Rightarrow>
               Inr ((''FIRSTNAME'', JStr p0) #
                    (case rest of [] \<Rightarrow> [] | p1 # _ \<Rightarrow> [(''LASTNAME'', JStr p1)])))"

fun referral_attributes :: "string option \<Rightarrow> (string \<times> json) list" where
  "referral_attributes None = []"
| "referral_attributes (Some r) = (if r = [] then [] else [(''REFERRAL_SOURCE'', JStr r)])"

text \<open>The handlers of \<open>add_contact_to_list\<close>, in the order of the source.\<close>

fun sync_failure :: "exn \<Rightarrow> brevo_result" where
  "sync_failure (ApiException st reason body t) =
     (if st = 400 \<and> str_in ''Contact already exist'' body then
        \<lparr>br_status = SUCCESS, br_contact_id = None,
         br_message = Some ''Contact already exists in Brevo'',
         br_error = None, br_error_code = None\<rparr>
      else if st = 401 then
        \<lparr>br_status = FAILED, br_contact_id = None, br_message = None,
         br_error = Some ''Authentication failed'', br_error_code = Some ''BREVO_AUTH_FAILED''\<rparr>
      else if st = 404 then
        \<lparr>br_status = FAILED, br_contact_id = None, br_message = None,
         br_error = Some ''List not found'', br_error_code = Some ''BREVO_LIST_NOT_FOUND''\<rparr>
      else
        \<lparr>br_status = FAILED, br_contact_id = None, br_message = None,
         br_error = Some (''API error: '' @ reason), br_error_code = Some ''BREVO_API_ERROR''\<rparr>)"
| "sync_failure e =
     \<lparr>br_status = FAILED, br_contact_id = None, br_message = None,
      br_error = Some (exn_str e), br_error_code = Some ''BREVO_UNEXPECTED_ERROR''\<rparr>"

text \<open>
  \<open>add_contact_to_list\<close>: \<open>signup_date\<close> is \<open>datetime.now().strftime("%Y-%m-%d")\<close> and
  \<open>reply\<close> is what \<open>create_contact\<close> does with the request.
\<close>

definition add_contact_to_list ::
  "string \<Rightarrow> int outcome \<Rightarrow> string \<Rightarrow> string option \<Rightarrow> string option \<Rightarrow> nat \<Rightarrow>
   brevo_result \<times> event list" where
  "add_contact_to_list signup_date reply e n ref pos =
     (case name_attributes n of
        Inl ex \<Rightarrow> (sync_failure ex, [])
      | Inr name_attrs \<Rightarrow>
          let attributes =
                [(''SIGNUP_DATE'', JStr signup_date), (''WAITLIST_POSITION'', JInt (int pos))]
                @ name_attrs @ referral_attributes ref
          in (case reply of
                Returns contact \<Rightarrow>
                  \<lparr>br_status = SUCCESS, br_contact_id = Some (str_int contact),
                   br_message = Some ''Contact added and automation triggered'',
                   br_error = None, br_error_code = None\<rparr>
              | Raises ex \<Rightarrow> sync_failure ex,
              [CreateContact e attributes]))"


section \<open>Request and response models\<close>

record EmailSubmission =
  sub_email :: string
  sub_name :: "string option"
  sub_referral_source :: "string option"

definition email_must_be_lowercase :: "string \<Rightarrow> string" where
  "email_must_be_lowercase v = strip (lower v)"

fun name_must_be_clean :: "string option \<Rightarrow> string option" where
  "name_must_be_clean None = None"
| "name_must_be_clean (Some v) = (if v = [] then Some v else Some (strip v))"

text \<open>
  The submission that the endpoint receives for field values that have passed the type
  and length checks of the model: each validator has run once on its field.
\<close>

definition validated :: "string \<Rightarrow> string option \<Rightarrow> string option \<Rightarrow> EmailSubmission" where
  "validated v n ref =
     \<lparr>sub_email = email_must_be_lowercase v, sub_name = name_must_be_clean n,
      sub_referral_source = ref\<rparr>"

record WaitlistResponse =
  success :: bool
  message :: string
  data :: "(string \<times> json) list option"
  error_code :: "string option"

definition WaitlistResponse_json :: "WaitlistResponse \<Rightarrow> json" where
  "WaitlistResponse_json r =
     JObj [(''success'', JBool (success r)), (''message'', JStr (message r)),
           (''data'', case data r of None \<Rightarrow> JNull | Some d \<Rightarrow> JObj d),
           (''error_code'', opt_str (error_code r))]"

fun dict_get :: "(string \<times> json) list \<Rightarrow> string \<Rightarrow> json" where
  "dict_get kvs k = (case map_of kvs k of None \<Rightarrow> JNull | Some v \<Rightarrow> v)"

fun json_truthy :: "json \<Rightarrow> bool" where
  "json_truthy JNull = False"
| "json_truthy (JBool b) = b"
| "json_truthy (JInt i) = (i \<noteq> 0)"
| "json_truthy (JStr s) = (s \<noteq> [])"
| "json_truthy (JIso t) = True"
| "json_truthy (JObj kvs) = (kvs \<noteq> [])"


section \<open>Endpoints\<close>

text \<open>
  What one request to \<open>POST /api/waitlist\<close> meets: whether each statement on the store
  fails, what the contact API does, the rows that other requests commit after the
  existence check and before this request's insert, and the clock.
\<close>

record request_env =
  check_fault :: "db_fault option"
  count_fault :: "db_fault option"
  signup_date :: string
  create_contact :: "int outcome"
  raced :: "waitlist_row list"
  insert_fault :: "db_fault option"
  now_synced :: timestamp
  now_created :: timestamp

text \<open>The two handlers that close the \<open>try\<close> block of \<open>add_to_waitlist\<close>.\<close>

fun endpoint_error :: "exn \<Rightarrow> exn" where
  "endpoint_error (HTTPException sc detail) = HTTPException sc detail"
| "endpoint_error e = HTTPException 500 ''An unexpected error occurred. Please try again later.''"

text \<open>The first four bytes of the message are the UTF-8 encoding of U+1F389.\<close>

definition added_message :: string where
  "added_message =
     [CHR 0xF0, CHR 0x9F, CHR 0x8E, CHR 0x89] @ '' You've been added to the waitlist!''"

definition warning_message :: string where
  "warning_message = '' (Note: Email confirmation may be delayed)''"

definition add_to_waitlist ::
  "request_env \<Rightarrow> EmailSubmission \<Rightarrow> db \<Rightarrow> (exn + WaitlistResponse) \<times> db \<times> event list" where
  "add_to_waitlist env submission d =
     (case check_email_exists (check_fault env) (sub_email submission) d of
        Inl ex \<Rightarrow> (Inl (endpoint_error ex), d, [])
      | Inr (Some existing) \<Rightarrow>
          (Inr \<lparr>success = False, message = ''This email has already been registered!'',
                data = Some [(''email'', JStr (sub_email submission)),
                             (''registered_at'', JIso (ret_created_at existing))],
                error_code = Some ''EMAIL_ALREADY_EXISTS''\<rparr>,
           d, [])
      | Inr None \<Rightarrow>
          (case get_waitlist_count (count_fault env) d of
             Inl ex \<Rightarrow> (Inl (endpoint_error ex), d, [])
           | Inr count \<Rightarrow>
               let (brevo_result, sync_events) =
                     add_contact_to_list (signup_date env) (create_contact env)
                       (sub_email submission) (sub_name submission)
                       (sub_referral_source submission) (count + 1);
                   d1 = d\<lparr>rows := rows d @ raced env,
                          next_id := next_id d + length (raced env)\<rparr>;
                   (added, d2) =
                     add_waitlist_entry (insert_fault env) (now_synced env) (now_created env)
                       (sub_email submission) (sub_name submission)
                       (sub_referral_source submission)
                       (br_contact_id brevo_result) (br_status brevo_result) d1;
                   events = sync_events @ [AddWaitlistEntry (sub_email submission)]
               in (case added of
                     Inl ex \<Rightarrow> (Inl (endpoint_error ex), d2, events)
                   | Inr entry \<Rightarrow>
                       (Inr \<lparr>success = True,
                             message = added_message @
                               (if br_status brevo_result = FAILED then warning_message else []),
                             data = Some [(''email'', JStr (ret_email entry)),
                                          (''name'', opt_str (ret_name entry)),
                                          (''position'', JInt (int (position entry))),
                                          (''registered_at'', JIso (ret_created_at entry)),
                                          (''brevo_sync_status'',
                                           JStr (sync_status_value (br_status brevo_result)))],
                             error_code = None\<rparr>,
                        d2, events))))"

text \<open>The function \<open>get_waitlist_count\<close> registered for \<open>GET /api/waitlist/count\<close>.\<close>

definition waitlist_count_endpoint :: "db_fault option \<Rightarrow> timestamp \<Rightarrow> db \<Rightarrow> exn + json" where
  "waitlist_count_endpoint fault now d =
     (case get_waitlist_count fault d of
        Inr count \<Rightarrow>
          Inr (JObj [(''success'', JBool True), (''count'', JInt (int count)),
                     (''timestamp'', JIso now)])
      | Inl ex \<Rightarrow> Inl (HTTPException 500 ''Failed to get waitlist count''))"

text \<open>The function \<open>brevo_connection_status\<close> registered for \<open>GET /api/brevo/status\<close>.\<close>

definition brevo_connection_status :: "account outcome \<Rightarrow> timestamp \<Rightarrow> int \<Rightarrow> exn + json" where
  "brevo_connection_status account_reply now list_id =
     Inr (JObj [(''timestamp'', JIso now), (''brevo'', JObj (test_connection account_reply)),
                (''list_id'', JInt list_id)])"

text \<open>
  The function \<open>health_check\<close> registered for \<open>GET /api/health\<close>: the state that it
  updates is the composite status and the two entries of \<open>services\<close>.
\<close>

definition health_check :: "db_fault option \<Rightarrow> account outcome \<Rightarrow> timestamp \<Rightarrow> db \<Rightarrow> exn + json" where
  "health_check fault account_reply now d =
     (let (status0, database) =
            (case get_waitlist_count fault d of
               Inr count \<Rightarrow>
                 (''healthy'',
                  [(''status'', JStr ''healthy''), (''waitlist_count'', JInt (int count))])
             | Inl ex \<Rightarrow>
                 (''degraded'',
                  [(''status'', JStr ''unhealthy''), (''error'', JStr (exn_str ex))]));
          brevo_status = test_connection account_reply;
          status1 = (if \<not> json_truthy (dict_get brevo_status ''connected'')
                     then ''degraded'' else status0)
      in Inr (JObj [(''status'', JStr status1), (''timestamp'', JIso now),
                    (''services'', JObj [(''database'', JObj database),
                                         (''brevo'', JObj brevo_status)])]))"


section \<open>Error handlers\<close>

definition http_exception_handler :: "nat \<Rightarrow> string \<Rightarrow> nat \<times> json" where
  "http_exception_handler sc detail =
     (sc, JObj [(''success'', JBool False), (''error'', JStr detail),
                (''status_code'', JInt (int sc))])"

definition general_exception_handler :: "exn \<Rightarrow> nat \<times> json" where
  "general_exception_handler ex =
     (500, JObj [(''success'', JBool False), (''error'', JStr ''Internal Server Error''),
                 (''status_code'', JInt 500)])"

text \<open>
  What the application answers once the function of a route has returned or raised, for
  a route whose status code on return is \<open>ok\<close>: the returned body, or the body that the
  handler of the raised exception builds.
\<close>

fun client_response :: "nat \<Rightarrow> exn + json \<Rightarrow> nat \<times> json" where
  "client_response ok (Inr body) = (ok, body)"
| "client_response ok (Inl (HTTPException sc detail)) = http_exception_handler sc detail"
| "client_response ok (Inl ex) = general_exception_handler ex"

text \<open>
  \<open>POST /api/waitlist\<close> with a body that the request model accepts: the route calls
  \<open>add_to_waitlist\<close> and serialises what it returns.
\<close>

definition post_waitlist :: "request_env \<Rightarrow> EmailSubmission \<Rightarrow> db \<Rightarrow> nat \<times> json" where
  "post_waitlist env submission d =
     client_response 201
       (case fst (add_to_waitlist env submission d) of
          Inl ex \<Rightarrow> Inl ex
        | Inr r \<Rightarrow> Inr (WaitlistResponse_json r))"


section \<open>Configuration and startup\<close>

text \<open>
  The environment variables that \<open>Config\<close> reads. \<open>env_BREVO_WAITLIST_ID\<close> is what \<open>int\<close>
  does with the text of the variable when it is set.
\<close>

record environ =
  env_DATABASE_URL :: "string option"
  env_BREVO_API_KEY :: "string option"
  env_BREVO_WAITLIST_ID :: "int outcome option"
  env_FRONTEND_URL :: "string option"

record Config =
  DATABASE_URL :: "string option"
  BREVO_API_KEY :: string
  BREVO_WAITLIST_ID :: int
  ALLOWED_ORIGINS :: "string list"

fun getenv :: "string option \<Rightarrow> string \<Rightarrow> string" where
  "getenv None dflt = dflt"
| "getenv (Some v) dflt = v"

definition load_config :: "environ \<Rightarrow> exn + Config" where
  "load_config env =
     (case (case env_BREVO_WAITLIST_ID env of None \<Rightarrow> Returns 0 | Some r \<Rightarrow> r) of
        Raises ex \<Rightarrow> Inl ex
      | Returns list_id \<Rightarrow>
          Inr \<lparr>DATABASE_URL = env_DATABASE_URL env,
               BREVO_API_KEY =
                 strip_chars (\<lambda>c. c = CHR 0x27)
                   (strip_chars (\<lambda>c. c = CHR 0x22) (strip (getenv (env_BREVO_API_KEY env) []))),
               BREVO_WAITLIST_ID = list_id,
               ALLOWED_ORIGINS =
                 [''http://localhost:5173'', ''http://localhost:3000'', ''http://127.0.0.1:5173'',
                  getenv (env_FRONTEND_URL env) []]\<rparr>)"

record validation =
  valid :: bool
  errors :: "string list"
  warnings :: "string list"

text \<open>\<open>Config.validate\<close> returns its report and leaves the filtered origins in \<open>Config\<close>.\<close>

definition validate :: "Config \<Rightarrow> validation \<times> Config" where
  "validate cfg =
     (let errors0 = (if DATABASE_URL cfg = None \<or> DATABASE_URL cfg = Some []
                     then [''DATABASE_URL is not set''] else []);
          errors1 = errors0 @ (if BREVO_API_KEY cfg = []
                     then [''BREVO_API_KEY is not set''] else []);
          errors2 = errors1 @ (if BREVO_WAITLIST_ID cfg = 0
                     then [''BREVO_WAITLIST_ID is not set or invalid''] else []);
          origins = filter (\<lambda>origin. origin \<noteq> []) (ALLOWED_ORIGINS cfg);
          warnings0 = (if origins = [] then [''No CORS origins configured''] else [])
      in (\<lparr>valid = (length errors2 = 0), errors = errors2, warnings = warnings0\<rparr>,
          cfg\<lparr>ALLOWED_ORIGINS := origins\<rparr>))"

text \<open>
  \<open>startup_event\<close> raises when the report is not valid. After that it initialises the
  schema and tests the contact API; a failure of either is logged and startup goes on.
\<close>

definition startup_event :: "Config \<Rightarrow> exn + Config" where
  "startup_event cfg =
     (let (config_status, cfg') = validate cfg
      in if \<not> valid config_status
         then Inl (RuntimeError ''Configuration validation failed'')
         else Inr cfg')"

definition startup :: "environ \<Rightarrow> exn + Config" where
  "startup env = (case load_config env of Inl ex \<Rightarrow> Inl ex | Inr cfg \<Rightarrow> startup_event cfg)"


section \<open>Notions used in the statements\<close>

text \<open>
  \<open>new_row\<close> is the row that \<open>add_waitlist_entry\<close> inserts into the table \<open>d\<close>;
  \<open>duplicate_response\<close> is the response of \<open>add_to_waitlist\<close> for an email that is
  registered; \<open>sync_of\<close> is the call of \<open>add_contact_to_list\<close> that \<open>add_to_waitlist\<close>
  makes, and \<open>stored_row\<close> the row it then inserts. \<open>composite_status\<close> and
  \<open>service_field\<close> read the body of the health check.
\<close>

definition new_row ::
  "db \<Rightarrow> timestamp \<Rightarrow> timestamp \<Rightarrow> string \<Rightarrow> string option \<Rightarrow> string option \<Rightarrow> string option \<Rightarrow>
   BrevoSyncStatus \<Rightarrow> waitlist_row" where
  "new_row d now1 now2 e n ref cid sync =
     \<lparr>row_id = next_id d, email = e, name = n, referral_source = ref, status = PENDING,
      brevo_contact_id = cid, brevo_sync_status = sync,
      brevo_synced_at = (if sync = SUCCESS then Some now1 else None), created_at = now2\<rparr>"

definition duplicate_response :: "string \<Rightarrow> timestamp \<Rightarrow> WaitlistResponse" where
  "duplicate_response e t =
     \<lparr>success = False, message = ''This email has already been registered!'',
      data = Some [(''email'', JStr e), (''registered_at'', JIso t)],
      error_code = Some ''EMAIL_ALREADY_EXISTS''\<rparr>"

definition sync_of :: "request_env \<Rightarrow> EmailSubmission \<Rightarrow> db \<Rightarrow> brevo_result \<times> event list" where
  "sync_of env s d =
     add_contact_to_list (signup_date env) (create_contact env) (sub_email s) (sub_name s)
       (sub_referral_source s) (length (rows d) + 1)"

definition stored_row :: "request_env \<Rightarrow> EmailSubmission \<Rightarrow> db \<Rightarrow> waitlist_row" where
  "stored_row env s d =
     \<lparr>row_id = next_id d + length (raced env), email = sub_email s, name = sub_name s,
      referral_source = sub_referral_source s, status = PENDING,
      brevo_contact_id = br_contact_id (fst (sync_of env s d)),
      brevo_sync_status = br_status (fst (sync_of env s d)),
      brevo_synced_at =
        (if br_status (fst (sync_of env s d)) = SUCCESS then Some (now_synced env) else None),
      created_at = now_created env\<rparr>"

definition composite_status :: "exn + json \<Rightarrow> json" where
  "composite_status r = (case r of Inr (JObj kvs) \<Rightarrow> dict_get kvs ''status'' | _ \<Rightarrow> JNull)"

definition service_field :: "exn + json \<Rightarrow> string \<Rightarrow> string \<Rightarrow> json" where
  "service_field r service field =
     (case r of
        Inr (JObj kvs) \<Rightarrow>
          (case dict_get kvs ''services'' of
             JObj services \<Rightarrow>
               (case dict_get services service of
                  JObj sub \<Rightarrow> dict_get sub field
                | _ \<Rightarrow> JNull)
           | _ \<Rightarrow> JNull)
      | _ \<Rightarrow> JNull)"

text \<open>
  Requests in a row. \<open>fault_free\<close> says that no statement of the store fails during a
  request and that no other request writes in between; \<open>run_requests\<close> runs the
  requests of a list one after the other, each on the table that the one before left,
  and collects what they return; \<open>response_field\<close> reads a key of \<open>data\<close>.
\<close>

definition fault_free :: "request_env \<Rightarrow> bool" where
  "fault_free env =
     (check_fault env = None \<and> count_fault env = None \<and> insert_fault env = None
      \<and> raced env = [])"

fun run_requests ::
  "(request_env \<times> EmailSubmission) list \<Rightarrow> db \<Rightarrow> (exn + WaitlistResponse) list" where
  "run_requests [] d = []"
| "run_requests ((env, submission) # rest) d =
     fst (add_to_waitlist env submission d)
     # run_requests rest (fst (snd (add_to_waitlist env submission d)))"

definition response_field :: "exn + WaitlistResponse \<Rightarrow> string \<Rightarrow> json" where
  "response_field r k =
     (case r of
        Inr resp \<Rightarrow> (case data resp of Some kvs \<Rightarrow> dict_get kvs k | None \<Rightarrow> JNull)
      | Inl ex \<Rightarrow> JNull)"


text \<open>
  The handlers that close the \<open>try\<close> block of \<open>add_waitlist_entry\<close>, applied to the
  exception that leaves the \<open>with\<close> block.
\<close>

fun entry_error :: "exn \<Rightarrow> exn" where
  "entry_error (IntegrityError t) = HTTPException 409 ''Email already registered''"
| "entry_error ex = ex"







section \<open>Auxiliary facts\<close>

lemma check_email_exists_ok:
  "check_email_exists None e d = Inr (select_by_email e d)"
  by (simp add: check_email_exists_def get_db_connection_def)

lemma check_email_exists_fault:
  "check_email_exists (Some f) e d = Inl (raised_by f)"
  by (simp add: check_email_exists_def get_db_connection_def)

lemma get_waitlist_count_ok: "get_waitlist_count None d = Inr (length (rows d))"
  by (simp add: get_waitlist_count_def get_db_connection_def select_count_def)

lemma get_waitlist_count_fault: "get_waitlist_count (Some f) d = Inl (raised_by f)"
  by (simp add: get_waitlist_count_def get_db_connection_def)

lemma db_error_is_http: "\<exists>detail. db_error ex = HTTPException 500 detail"
  by (cases ex) simp_all

lemma endpoint_error_db_error: "endpoint_error (db_error ex) = db_error ex"
  by (cases ex) simp_all

lemma add_waitlist_entry_new:
  assumes "e \<notin> set (map email (rows d))"
  shows "add_waitlist_entry None now1 now2 e n ref cid sync d =
           (Inr \<lparr>ret_id = next_id d, ret_email = e, ret_name = n, ret_status = PENDING,
                 ret_created_at = now2,
                 position = Suc (length (filter (\<lambda>r. created_at r \<le> now2) (rows d)))\<rparr>,
            d\<lparr>rows := rows d @ [new_row d now1 now2 e n ref cid sync],
              next_id := next_id d + 1\<rparr>)"
  using assms
  by (simp add: add_waitlist_entry_def get_db_connection_def insert_row_def Let_def
      returning_def select_count_upto_def new_row_def)

lemma add_waitlist_entry_duplicate:
  assumes "e \<in> set (map email (rows d))"
  shows "add_waitlist_entry None now1 now2 e n ref cid sync d =
           (Inl (HTTPException 500 ''Database operation failed''), d\<lparr>next_id := next_id d + 1\<rparr>)"
  using assms
  by (simp add: add_waitlist_entry_def get_db_connection_def insert_row_def)

lemma add_waitlist_entry_fault:
  "add_waitlist_entry (Some f) now1 now2 e n ref cid sync d = (Inl (entry_error (raised_by f)), d)"
  by (cases "raised_by f") (simp_all add: add_waitlist_entry_def get_db_connection_def)

lemma add_to_waitlist_existing:
  assumes "check_fault env = None"
    and "find (\<lambda>r. email r = sub_email s) (rows d) = Some r"
  shows "add_to_waitlist env s d = (Inr (duplicate_response (sub_email s) (created_at r)), d, [])"
  using assms
  by (simp add: add_to_waitlist_def check_email_exists_ok select_by_email_def returning_def
      duplicate_response_def)

lemma find_None_iff_email: "find (\<lambda>r. email r = e) rs = None \<longleftrightarrow> e \<notin> set (map email rs)"
  by (induction rs) auto

lemma db_update_both: "d\<lparr>rows := rs, next_id := k\<rparr> = \<lparr>rows = rs, next_id = k\<rparr>"
  by (cases d) simp

lemma add_to_waitlist_new:
  assumes "check_fault env = None" and "count_fault env = None" and "insert_fault env = None"
    and "sub_email s \<notin> set (map email (rows d @ raced env))"
  shows "add_to_waitlist env s d =
    (Inr \<lparr>success = True,
          message = added_message @
            (if br_status (fst (sync_of env s d)) = FAILED then warning_message else []),
          data = Some [(''email'', JStr (sub_email s)),
                       (''name'', opt_str (sub_name s)),
                       (''position'',
                        JInt (int (Suc (length (filter (\<lambda>r. created_at r \<le> now_created env)
                                                     (rows d @ raced env)))))),
                       (''registered_at'', JIso (now_created env)),
                       (''brevo_sync_status'',
                        JStr (sync_status_value (br_status (fst (sync_of env s d)))))],
          error_code = None\<rparr>,
     \<lparr>rows = rows d @ raced env @ [stored_row env s d],
      next_id = next_id d + length (raced env) + 1\<rparr>,
     snd (sync_of env s d) @ [AddWaitlistEntry (sub_email s)])"
proof -
  let ?d1 = "d\<lparr>rows := rows d @ raced env, next_id := next_id d + length (raced env)\<rparr>"
  from assms(4) have "find (\<lambda>r. email r = sub_email s) (rows d) = None"
    by (simp add: find_None_iff_email)
  with assms(1) have chk: "check_email_exists (check_fault env) (sub_email s) d = Inr None"
    by (simp add: check_email_exists_ok select_by_email_def)
  from assms(2) have cnt: "get_waitlist_count (count_fault env) d = Inr (length (rows d))"
    by (simp add: get_waitlist_count_ok)
  obtain br evs where sync: "sync_of env s d = (br, evs)"
    by (cases "sync_of env s d")
  then have call: "add_contact_to_list (signup_date env) (create_contact env) (sub_email s)
      (sub_name s) (sub_referral_source s) (length (rows d) + 1) = (br, evs)"
    by (simp add: sync_of_def)
  from assms(4) have fresh: "sub_email s \<notin> set (map email (rows ?d1))" by simp
  have ins: "add_waitlist_entry (insert_fault env) (now_synced env) (now_created env)
      (sub_email s) (sub_name s) (sub_referral_source s) (br_contact_id br) (br_status br) ?d1 =
      (Inr \<lparr>ret_id = next_id ?d1, ret_email = sub_email s, ret_name = sub_name s,
            ret_status = PENDING, ret_created_at = now_created env,
            position = Suc (length (filter (\<lambda>r. created_at r \<le> now_created env) (rows ?d1)))\<rparr>,
       ?d1\<lparr>rows := rows ?d1 @ [new_row ?d1 (now_synced env) (now_created env) (sub_email s)
                 (sub_name s) (sub_referral_source s) (br_contact_id br) (br_status br)],
           next_id := next_id ?d1 + 1\<rparr>)"
    using add_waitlist_entry_new [OF fresh] assms(3) by simp
  have row: "new_row ?d1 (now_synced env) (now_created env) (sub_email s)
                 (sub_name s) (sub_referral_source s) (br_contact_id br) (br_status br) =
             stored_row env s d"
    by (simp add: new_row_def stored_row_def sync)
  show ?thesis
    unfolding add_to_waitlist_def chk cnt
    by (simp only: sum.case option.case call prod.case Let_def ins row)
       (simp add: sync db_update_both)
qed







lemma dropWhile_prefix_self:
  assumes "t = u @ w" and "u \<noteq> []" and "t \<noteq> [] \<Longrightarrow> \<not> P (hd t)"
  shows "dropWhile P u = u"
  using assms by (cases u) auto

lemma strip_chars_no_leading: "dropWhile P (strip_chars P s) = strip_chars P s"
proof (cases "strip_chars P s = []")
  case True
  then show ?thesis by simp
next
  case False
  have "rev (takeWhile P (rev (dropWhile P s)) @ dropWhile P (rev (dropWhile P s))) =
        rev (rev (dropWhile P s))"
    by (simp only: takeWhile_dropWhile_id)
  then have parts: "dropWhile P s = strip_chars P s @ rev (takeWhile P (rev (dropWhile P s)))"
    by (simp only: rev_append rev_rev_ident strip_chars_def)
  show ?thesis
    by (rule dropWhile_prefix_self [OF parts False]) (rule hd_dropWhile)
qed

lemma split_maxsplit1_nonempty:
  assumes "dropWhile isspace s \<noteq> []"
  shows "split_maxsplit1 s \<noteq> []"
proof -
  let ?s1 = "dropWhile isspace s"
  let ?w = "takeWhile (\<lambda>c. \<not> isspace c) ?s1"
  let ?r = "dropWhile isspace (dropWhile (\<lambda>c. \<not> isspace c) ?s1)"
  have eq: "split_maxsplit1 s = (if ?r = [] then [?w] else [?w, ?r])"
    unfolding split_maxsplit1_def Let_def using assms by (rule if_not_P)
  show ?thesis
  proof (cases "?r = []")
    case True
    have "split_maxsplit1 s = [?w]" unfolding eq using True by (rule if_P)
    then show ?thesis by (simp only: list.distinct not_False_eq_True)
  next
    case False
    have "split_maxsplit1 s = [?w, ?r]" unfolding eq using False by (rule if_not_P)
    then show ?thesis by (simp only: list.distinct not_False_eq_True)
  qed
qed

lemma split_strip_nonempty:
  assumes "strip v \<noteq> []"
  shows "split_maxsplit1 (strip v) \<noteq> []"
proof -
  have "dropWhile isspace (strip v) = strip v"
    unfolding strip_def by (rule strip_chars_no_leading)
  with assms have "dropWhile isspace (strip v) \<noteq> []" by simp
  then show ?thesis by (rule split_maxsplit1_nonempty)
qed

lemma name_attributes_clean: "\<exists>attrs. name_attributes (name_must_be_clean n) = Inr attrs"
proof (cases n)
  case None
  then show ?thesis by simp
next
  case (Some v)
  show ?thesis
  proof (cases "v = [] \<or> strip v = []")
    case True
    with Some show ?thesis by auto
  next
    case False
    with split_strip_nonempty [of v] obtain p0 rest where "split_maxsplit1 (strip v) = p0 # rest"
      by (cases "split_maxsplit1 (strip v)") auto
    with Some False show ?thesis by simp
  qed
qed

lemma add_contact_to_list_sent:
  assumes "name_attributes n = Inr attrs"
  shows "add_contact_to_list sd reply e n ref pos =
     (case reply of
        Returns contact \<Rightarrow>
          \<lparr>br_status = SUCCESS, br_contact_id = Some (str_int contact),
           br_message = Some ''Contact added and automation triggered'',
           br_error = None, br_error_code = None\<rparr>
      | Raises ex \<Rightarrow> sync_failure ex,
      [CreateContact e ([(''SIGNUP_DATE'', JStr sd), (''WAITLIST_POSITION'', JInt (int pos))]
                        @ attrs @ referral_attributes ref)])"
  using assms by (simp add: add_contact_to_list_def)

lemma health_check_shape:
  "health_check fault reply now d =
     Inr (JObj [(''status'', JStr (if fault \<noteq> None \<or> (\<exists>ex. reply = Raises ex)
                                   then ''degraded'' else ''healthy'')),
                (''timestamp'', JIso now),
                (''services'',
                 JObj [(''database'',
                        JObj (case fault of
                                None \<Rightarrow> [(''status'', JStr ''healthy''),
                                         (''waitlist_count'', JInt (int (length (rows d))))]
                              | Some f \<Rightarrow> [(''status'', JStr ''unhealthy''),
                                            (''error'', JStr (exn_str (raised_by f)))])),
                       (''brevo'', JObj (test_connection reply))])])"
proof (cases fault)
  case None
  then show ?thesis
    by (cases reply) (simp_all add: health_check_def get_waitlist_count_ok test_connection_def)
next
  case (Some ex)
  then show ?thesis
    by (cases reply) (simp_all add: health_check_def get_waitlist_count_fault test_connection_def)
qed

lemma startup_event_cases:
  "startup_event cfg =
     (if DATABASE_URL cfg = None \<or> DATABASE_URL cfg = Some [] \<or> BREVO_API_KEY cfg = []
         \<or> BREVO_WAITLIST_ID cfg = 0
      then Inl (RuntimeError ''Configuration validation failed'')
      else Inr (cfg\<lparr>ALLOWED_ORIGINS := filter (\<lambda>origin. origin \<noteq> []) (ALLOWED_ORIGINS cfg)\<rparr>))"
  by (simp add: startup_event_def validate_def Let_def)

lemma load_config_fields:
  assumes "load_config env = Inr cfg"
  shows "DATABASE_URL cfg = env_DATABASE_URL env"
    and "env_BREVO_API_KEY env = None \<Longrightarrow> BREVO_API_KEY cfg = []"
    and "env_BREVO_WAITLIST_ID env = None \<Longrightarrow> BREVO_WAITLIST_ID cfg = 0"
  using assms
  by (auto simp: load_config_def strip_def strip_chars_def split: outcome.splits option.splits)

lemma sub_validated [simp]:
  "sub_email (validated v n ref) = email_must_be_lowercase v"
  "sub_name (validated v n ref) = name_must_be_clean n"
  "sub_referral_source (validated v n ref) = ref"
  by (simp_all add: validated_def)

lemma add_to_waitlist_check_fault:
  "check_fault env = Some f \<Longrightarrow>
     add_to_waitlist env s d = (Inl (endpoint_error (raised_by f)), d, [])"
  by (simp add: add_to_waitlist_def check_email_exists_fault)

lemma add_to_waitlist_count_fault:
  assumes "check_fault env = None" and "sub_email s \<notin> set (map email (rows d))"
    and "count_fault env = Some f"
  shows "add_to_waitlist env s d = (Inl (endpoint_error (raised_by f)), d, [])"
proof -
  from assms(2) have "find (\<lambda>r. email r = sub_email s) (rows d) = None"
    by (simp add: find_None_iff_email)
  with assms(1,3) show ?thesis
    by (simp add: add_to_waitlist_def check_email_exists_ok select_by_email_def
        get_waitlist_count_fault)
qed

lemma add_to_waitlist_insert_step:
  assumes "check_fault env = None" and "sub_email s \<notin> set (map email (rows d))"
    and "count_fault env = None"
    and "add_waitlist_entry (insert_fault env) (now_synced env) (now_created env)
      (sub_email s) (sub_name s) (sub_referral_source s)
      (br_contact_id (fst (sync_of env s d))) (br_status (fst (sync_of env s d)))
      (d\<lparr>rows := rows d @ raced env, next_id := next_id d + length (raced env)\<rparr>) = (Inl ex, d2)"
  shows "add_to_waitlist env s d =
     (Inl (endpoint_error ex), d2, snd (sync_of env s d) @ [AddWaitlistEntry (sub_email s)])"
proof -
  from assms(2) have "find (\<lambda>r. email r = sub_email s) (rows d) = None"
    by (simp add: find_None_iff_email)
  with assms(1) have chk: "check_email_exists (check_fault env) (sub_email s) d = Inr None"
    by (simp add: check_email_exists_ok select_by_email_def)
  from assms(3) have cnt: "get_waitlist_count (count_fault env) d = Inr (length (rows d))"
    by (simp add: get_waitlist_count_ok)
  obtain br evs where sync: "sync_of env s d = (br, evs)"
    by (cases "sync_of env s d")
  then have call: "add_contact_to_list (signup_date env) (create_contact env) (sub_email s)
      (sub_name s) (sub_referral_source s) (length (rows d) + 1) = (br, evs)"
    by (simp add: sync_of_def)
  from assms(4) have ins: "add_waitlist_entry (insert_fault env) (now_synced env)
      (now_created env) (sub_email s) (sub_name s) (sub_referral_source s) (br_contact_id br)
      (br_status br)
      (d\<lparr>rows := rows d @ raced env, next_id := next_id d + length (raced env)\<rparr>) = (Inl ex, d2)"
    by (simp add: sync)
  show ?thesis
    unfolding add_to_waitlist_def chk cnt
    by (simp only: sum.case option.case call prod.case Let_def ins)
       (simp add: sync)
qed

lemma add_to_waitlist_insert_fault:
  assumes "check_fault env = None" and "sub_email s \<notin> set (map email (rows d))"
    and "count_fault env = None" and "insert_fault env = Some f"
  shows "add_to_waitlist env s d =
     (Inl (endpoint_error (entry_error (raised_by f))),
      d\<lparr>rows := rows d @ raced env, next_id := next_id d + length (raced env)\<rparr>,
      snd (sync_of env s d) @ [AddWaitlistEntry (sub_email s)])"
  by (rule add_to_waitlist_insert_step [OF assms(1-3)])
     (simp add: assms(4) add_waitlist_entry_fault)

lemma add_to_waitlist_raced:
  assumes "check_fault env = None" and "sub_email s \<notin> set (map email (rows d))"
    and "count_fault env = None" and "insert_fault env = None"
    and "sub_email s \<in> set (map email (raced env))"
  shows "add_to_waitlist env s d =
     (Inl (HTTPException 500 ''Database operation failed''),
      d\<lparr>rows := rows d @ raced env, next_id := next_id d + length (raced env) + 1\<rparr>,
      snd (sync_of env s d) @ [AddWaitlistEntry (sub_email s)])"
proof -
  let ?d1 = "d\<lparr>rows := rows d @ raced env, next_id := next_id d + length (raced env)\<rparr>"
  from assms(5) have "sub_email s \<in> set (map email (rows ?d1))" by simp
  from add_waitlist_entry_duplicate [OF this]
  have "add_waitlist_entry (insert_fault env) (now_synced env) (now_created env)
      (sub_email s) (sub_name s) (sub_referral_source s)
      (br_contact_id (fst (sync_of env s d))) (br_status (fst (sync_of env s d))) ?d1 =
      (Inl (HTTPException 500 ''Database operation failed''),
       d\<lparr>rows := rows d @ raced env, next_id := next_id d + length (raced env) + 1\<rparr>)"
    by (simp add: assms(4))
  from add_to_waitlist_insert_step [OF assms(1-3) this] show ?thesis by simp
qed

lemma add_to_waitlist_success_inv:
  assumes "fst (add_to_waitlist env s d) = Inr resp" and "success resp"
  shows "check_fault env = None \<and> count_fault env = None \<and> insert_fault env = None
         \<and> sub_email s \<notin> set (map email (rows d @ raced env))"
proof -
  have a: "check_fault env = None"
  proof (cases "check_fault env")
    case (Some f)
    from add_to_waitlist_check_fault [OF this] assms(1) show ?thesis by simp
  qed simp
  have b: "sub_email s \<notin> set (map email (rows d))"
  proof
    assume "sub_email s \<in> set (map email (rows d))"
    then obtain r where "find (\<lambda>r. email r = sub_email s) (rows d) = Some r"
      using find_None_iff_email [of "sub_email s" "rows d"]
      by (cases "find (\<lambda>r. email r = sub_email s) (rows d)") auto
    from add_to_waitlist_existing [OF a this] assms(1)
    have "resp = duplicate_response (sub_email s) (created_at r)" by simp
    with assms(2) show False by (simp add: duplicate_response_def)
  qed
  have c: "count_fault env = None"
  proof (cases "count_fault env")
    case (Some f)
    from add_to_waitlist_count_fault [OF a b this] assms(1) show ?thesis by simp
  qed simp
  have d: "insert_fault env = None"
  proof (cases "insert_fault env")
    case (Some f)
    from add_to_waitlist_insert_fault [OF a b c this] assms(1) show ?thesis by simp
  qed simp
  have e: "sub_email s \<notin> set (map email (raced env))"
  proof
    assume "sub_email s \<in> set (map email (raced env))"
    from add_to_waitlist_raced [OF a b c d this] assms(1) show False by simp
  qed
  from a b c d e show ?thesis by simp
qed

lemma find_append_fresh:
  "e \<notin> set (map email xs) \<Longrightarrow> email x = e \<Longrightarrow> find (\<lambda>r. email r = e) (xs @ [x]) = Some x"
  by (induction xs) auto

lemma filter_email_fresh: "e \<notin> set (map email xs) \<Longrightarrow> filter (\<lambda>r. email r = e) xs = []"
  by (induction xs) auto

lemma email_stored_row [simp]: "email (stored_row env s d) = sub_email s"
  and created_at_stored_row [simp]: "created_at (stored_row env s d) = now_created env"
  by (simp_all add: stored_row_def)

lemma resubmission_after_signup:
  assumes "check_fault env1 = None" and "count_fault env1 = None" and "insert_fault env1 = None"
    and "sub_email s1 \<notin> set (map email (rows d @ raced env1))"
    and "check_fault env2 = None" and "sub_email s2 = sub_email s1"
  shows "add_to_waitlist env2 s2 (fst (snd (add_to_waitlist env1 s1 d))) =
           (Inr (duplicate_response (sub_email s1) (now_created env1)),
            fst (snd (add_to_waitlist env1 s1 d)), [])"
    and "length (filter (\<lambda>r. email r = sub_email s1)
                   (rows (fst (snd (add_to_waitlist env1 s1 d))))) = 1"
proof -
  let ?d' = "fst (snd (add_to_waitlist env1 s1 d))"
  have rows': "rows ?d' = (rows d @ raced env1) @ [stored_row env1 s1 d]"
    by (simp add: add_to_waitlist_new [OF assms(1-4)])
  from assms(4) have found: "find (\<lambda>r. email r = sub_email s2) (rows ?d') = Some (stored_row env1 s1 d)"
    unfolding rows' assms(6) by (intro find_append_fresh) simp_all
  from add_to_waitlist_existing [OF assms(5) found]
  show "add_to_waitlist env2 s2 ?d' =
           (Inr (duplicate_response (sub_email s1) (now_created env1)), ?d', [])"
    by (simp add: assms(6))
  from assms(4) show "length (filter (\<lambda>r. email r = sub_email s1) (rows ?d')) = 1"
    unfolding rows' by (simp add: filter_email_fresh)
qed

lemma sync_of_validated:
  "\<exists>attrs. sync_of env (validated v n ref) d =
     (case create_contact env of
        Returns contact \<Rightarrow>
          \<lparr>br_status = SUCCESS, br_contact_id = Some (str_int contact),
           br_message = Some ''Contact added and automation triggered'',
           br_error = None, br_error_code = None\<rparr>
      | Raises ex \<Rightarrow> sync_failure ex,
      [CreateContact (email_must_be_lowercase v) attrs])"
proof -
  from name_attributes_clean [of n] obtain name_attrs
    where "name_attributes (name_must_be_clean n) = Inr name_attrs" ..
  from add_contact_to_list_sent [OF this] show ?thesis
    by (simp add: sync_of_def)
qed

lemma rows_after_signup:
  assumes "check_fault env = None" and "count_fault env = None" and "insert_fault env = None"
    and "sub_email s \<notin> set (map email (rows d @ raced env))"
  shows "rows (fst (snd (add_to_waitlist env s d))) = rows d @ raced env @ [stored_row env s d]"
    and "last (rows (fst (snd (add_to_waitlist env s d)))) = stored_row env s d"
  by (simp_all add: add_to_waitlist_new [OF assms])

lemma position_after_signup:
  assumes "check_fault env = None" and "count_fault env = None" and "insert_fault env = None"
    and "sub_email s \<notin> set (map email (rows d @ raced env))"
  shows "response_field (fst (add_to_waitlist env s d)) ''position'' =
           JInt (int (Suc (length (filter (\<lambda>r. created_at r \<le> now_created env)
                                          (rows d @ raced env)))))"
    and "response_field (fst (add_to_waitlist env s d)) ''registered_at'' = JIso (now_created env)"
  by (simp_all add: add_to_waitlist_new [OF assms] response_field_def)

lemma run_requests_positions:
  assumes "list_all (\<lambda>q. fault_free (fst q)) reqs"
    and "distinct (map (\<lambda>q. sub_email (snd q)) reqs)"
    and "sorted_wrt (<) (map (\<lambda>q. now_created (fst q)) reqs)"
    and "\<And>r q. r \<in> set (rows d) \<Longrightarrow> q \<in> set reqs \<Longrightarrow>
            created_at r \<le> now_created (fst q) \<and> email r \<noteq> sub_email (snd q)"
  shows "map (\<lambda>r. response_field r ''position'') (run_requests reqs d) =
         map (\<lambda>i. JInt (int i)) [Suc (length (rows d)) ..< Suc (length (rows d)) + length reqs]"
  using assms
proof (induction reqs arbitrary: d)
  case Nil
  then show ?case by simp
next
  case (Cons q rest)
  obtain env s where q: "q = (env, s)" by (cases q)
  from Cons.prems(1) q have ff: "check_fault env = None" "count_fault env = None"
    "insert_fault env = None" "raced env = []"
    by (simp_all add: fault_free_def)
  from Cons.prems(4) [of _ q] q have old: "\<And>r. r \<in> set (rows d) \<Longrightarrow>
      created_at r \<le> now_created env \<and> email r \<noteq> sub_email s"
    by simp
  have fresh: "sub_email s \<notin> set (map email (rows d @ raced env))"
  proof
    assume "sub_email s \<in> set (map email (rows d @ raced env))"
    with ff(4) obtain r where "r \<in> set (rows d)" and "email r = sub_email s" by auto
    with old [of r] show False by simp
  qed
  from old have all_before: "filter (\<lambda>r. created_at r \<le> now_created env) (rows d) = rows d"
    by (simp add: filter_id_conv)
  have pos: "response_field (fst (add_to_waitlist env s d)) ''position''
      = JInt (int (Suc (length (rows d))))"
    using position_after_signup(1) [OF ff(1-3) fresh] by (simp add: ff(4) all_before)
  let ?d' = "fst (snd (add_to_waitlist env s d))"
  have rows': "rows ?d' = rows d @ [stored_row env s d]"
    by (simp add: add_to_waitlist_new [OF ff(1-3) fresh] ff(4))
  have inv: "created_at r \<le> now_created (fst q') \<and> email r \<noteq> sub_email (snd q')"
    if "r \<in> set (rows ?d')" and "q' \<in> set rest" for r q'
  proof (cases "r \<in> set (rows d)")
    case True
    with Cons.prems(4) [of r q'] that(2) show ?thesis by simp
  next
    case False
    with that(1) rows' have r: "r = stored_row env s d" by simp
    from Cons.prems(3) q that(2) have "now_created env < now_created (fst q')" by auto
    moreover from Cons.prems(2) q that(2) have "sub_email s \<noteq> sub_email (snd q')" by auto
    ultimately show ?thesis by (simp add: r)
  qed
  from Cons.prems have p1: "list_all (\<lambda>q. fault_free (fst q)) rest"
    and p2: "distinct (map (\<lambda>q. sub_email (snd q)) rest)"
    and p3: "sorted_wrt (<) (map (\<lambda>q. now_created (fst q)) rest)"
    by simp_all
  have ih: "map (\<lambda>r. response_field r ''position'') (run_requests rest ?d') =
      map (\<lambda>i. JInt (int i)) [Suc (length (rows ?d')) ..< Suc (length (rows ?d')) + length rest]"
    by (rule Cons.IH [OF p1 p2 p3 inv])
  have len: "length (rows ?d') = Suc (length (rows d))"
    by (simp add: rows')
  have upt: "[Suc (length (rows d)) ..< Suc (length (rows d)) + length ((env, s) # rest)] =
        Suc (length (rows d)) #
        [Suc (length (rows ?d')) ..< Suc (length (rows ?d')) + length rest]"
    unfolding len by (simp add: upt_conv_Cons del: upt_Suc)
  show ?case
    unfolding q run_requests.simps list.map pos ih upt ..
qed











section \<open>Health check\<close>

text \<open>
  Claim C7. The function \<open>health_check\<close> always returns a body. Its composite status is
  \<open>degraded\<close> or \<open>healthy\<close>, and it is \<open>degraded\<close> exactly when the database entry
  reports \<open>unhealthy\<close> or the contact API entry reports \<open>connected = False\<close>. The
  entries report what the probes met: when the count on the store fails with any fault
  \<open>f\<close>, the database entry reports \<open>unhealthy\<close> and the composite status is \<open>degraded\<close>;
  when the count succeeds, the database entry reports \<open>healthy\<close> with the count; when
  the contact API raises any exception \<open>ex\<close>, its entry reports \<open>connected = False\<close> and
  the composite status is \<open>degraded\<close>; when it returns an account, its entry reports
  \<open>connected = True\<close>; and when both probes succeed, the composite status is \<open>healthy\<close>.
\<close>

theorem health_check_degraded_iff_dependency_unhealthy:
  "(\<exists>body. health_check fault reply now d = Inr body)
   \<and> (composite_status (health_check fault reply now d) = JStr ''degraded''
        \<or> composite_status (health_check fault reply now d) = JStr ''healthy'')
   \<and> ((composite_status (health_check fault reply now d) = JStr ''degraded'')
        = (service_field (health_check fault reply now d) ''database'' ''status'' = JStr ''unhealthy''
           \<or> service_field (health_check fault reply now d) ''brevo'' ''connected'' = JBool False))
   \<and> composite_status (health_check (Some f) reply now d) = JStr ''degraded''
   \<and> service_field (health_check (Some f) reply now d) ''database'' ''status'' = JStr ''unhealthy''
   \<and> service_field (health_check None reply now d) ''database'' ''status'' = JStr ''healthy''
   \<and> service_field (health_check None reply now d) ''database'' ''waitlist_count''
       = JInt (int (length (rows d)))
   \<and> composite_status (health_check fault (Raises ex) now d) = JStr ''degraded''
   \<and> service_field (health_check fault (Raises ex) now d) ''brevo'' ''connected'' = JBool False
   \<and> service_field (health_check fault (Returns a) now d) ''brevo'' ''connected'' = JBool True
   \<and> composite_status (health_check None (Returns a) now d) = JStr ''healthy''"
proof -
  have p1: "\<exists>body. health_check fault reply now d = Inr body"
    by (simp add: health_check_shape)
  have p2: "composite_status (health_check fault reply now d) = JStr ''degraded''
        \<or> composite_status (health_check fault reply now d) = JStr ''healthy''"
    by (simp add: health_check_shape composite_status_def)
  have p3: "(composite_status (health_check fault reply now d) = JStr ''degraded'')
        = (service_field (health_check fault reply now d) ''database'' ''status'' = JStr ''unhealthy''
           \<or> service_field (health_check fault reply now d) ''brevo'' ''connected'' = JBool False)"
    by (cases fault; cases reply)
       (simp_all add: health_check_shape composite_status_def service_field_def test_connection_def)
  have p4: "composite_status (health_check (Some f) reply now d) = JStr ''degraded''"
    by (simp add: health_check_shape composite_status_def)
  have p5: "service_field (health_check (Some f) reply now d) ''database'' ''status''
      = JStr ''unhealthy''"
    by (simp add: health_check_shape service_field_def)
  have p6: "service_field (health_check None reply now d) ''database'' ''status''
      = JStr ''healthy''"
    by (simp add: health_check_shape service_field_def)
  have p7: "service_field (health_check None reply now d) ''database'' ''waitlist_count''
       = JInt (int (length (rows d)))"
    by (simp add: health_check_shape service_field_def)
  have p8: "composite_status (health_check fault (Raises ex) now d) = JStr ''degraded''"
    by (simp add: health_check_shape composite_status_def)
  have p9: "service_field (health_check fault (Raises ex) now d) ''brevo'' ''connected''
      = JBool False"
    by (simp add: health_check_shape service_field_def test_connection_def)
  have p10: "service_field (health_check fault (Returns a) now d) ''brevo'' ''connected''
      = JBool True"
    by (simp add: health_check_shape service_field_def test_connection_def)
  have p11: "composite_status (health_check None (Returns a) now d) = JStr ''healthy''"
    by (simp add: health_check_shape composite_status_def)
  show ?thesis using p1 p2 p3 p4 p5 p6 p7 p8 p9 p10 p11 by blast
qed


section \<open>Startup\<close>

text \<open>
  Claim C9, counterexample. With the database URL, the API key and the list id set and
  \<open>FRONTEND_URL\<close> unset, startup returns the configuration; and \<open>startup_event\<close> on a
  configuration whose list of origins is empty returns as well.
\<close>

theorem startup_continues_without_origins:
  "startup \<lparr>env_DATABASE_URL = Some ''postgresql://db/waitlist'', env_BREVO_API_KEY = Some ''xkeysib-1'',
            env_BREVO_WAITLIST_ID = Some (Returns 3), env_FRONTEND_URL = None\<rparr>
     = Inr \<lparr>DATABASE_URL = Some ''postgresql://db/waitlist'', BREVO_API_KEY = ''xkeysib-1'',
            BREVO_WAITLIST_ID = 3,
            ALLOWED_ORIGINS = [''http://localhost:5173'', ''http://localhost:3000'',
                               ''http://127.0.0.1:5173'']\<rparr>
   \<and> startup_event \<lparr>DATABASE_URL = Some ''postgresql://db/waitlist'', BREVO_API_KEY = ''xkeysib-1'',
                     BREVO_WAITLIST_ID = 3, ALLOWED_ORIGINS = []\<rparr>
     = Inr \<lparr>DATABASE_URL = Some ''postgresql://db/waitlist'', BREVO_API_KEY = ''xkeysib-1'',
            BREVO_WAITLIST_ID = 3, ALLOWED_ORIGINS = []\<rparr>"
  by (simp add: startup_def load_config_def startup_event_cases strip_def strip_chars_def
      isspace_def)

text \<open>
  Claim C9, amended. Startup raises when the database URL, the API key or the list id is
  unset; \<open>startup_event\<close> raises exactly when the database URL is unset or empty, the API
  key is empty or the list id is 0, whatever the list of origins is; and unsetting
  \<open>FRONTEND_URL\<close> never changes whether startup raises.
\<close>

theorem startup_aborts_without_required_value:
  "isl (startup (env\<lparr>env_DATABASE_URL := None\<rparr>))
   \<and> isl (startup (env\<lparr>env_BREVO_API_KEY := None\<rparr>))
   \<and> isl (startup (env\<lparr>env_BREVO_WAITLIST_ID := None\<rparr>))
   \<and> startup_event cfg =
       (if DATABASE_URL cfg = None \<or> DATABASE_URL cfg = Some [] \<or> BREVO_API_KEY cfg = []
           \<or> BREVO_WAITLIST_ID cfg = 0
        then Inl (RuntimeError ''Configuration validation failed'')
        else Inr (cfg\<lparr>ALLOWED_ORIGINS := filter (\<lambda>origin. origin \<noteq> []) (ALLOWED_ORIGINS cfg)\<rparr>))
   \<and> isl (startup (env\<lparr>env_FRONTEND_URL := None\<rparr>)) = isl (startup env)"
proof -
  have missing: "isl (startup e)"
    if "env_DATABASE_URL e = None \<or> env_BREVO_API_KEY e = None \<or> env_BREVO_WAITLIST_ID e = None"
    for e
  proof (cases "load_config e")
    case (Inl ex)
    then show ?thesis by (simp add: startup_def)
  next
    case (Inr c)
    from that load_config_fields [OF Inr]
    have "DATABASE_URL c = None \<or> BREVO_API_KEY c = [] \<or> BREVO_WAITLIST_ID c = 0" by auto
    with Inr show ?thesis by (auto simp: startup_def startup_event_cases)
  qed
  have a: "isl (startup (env\<lparr>env_DATABASE_URL := None\<rparr>))" by (rule missing) simp
  have b: "isl (startup (env\<lparr>env_BREVO_API_KEY := None\<rparr>))" by (rule missing) simp
  have c: "isl (startup (env\<lparr>env_BREVO_WAITLIST_ID := None\<rparr>))" by (rule missing) simp
  have d: "isl (startup (env\<lparr>env_FRONTEND_URL := None\<rparr>)) = isl (startup env)"
    by (simp add: startup_def load_config_def startup_event_cases
        split: outcome.splits option.splits)
  from a b c d startup_event_cases [of cfg] show ?thesis by (intro conjI)
qed


section \<open>Classification of the sync outcome\<close>

text \<open>
  Claim C4, counterexample. A remote error with status 500 gets the code
  \<open>BREVO_API_ERROR\<close>, which is not the code \<open>BREVO_UNEXPECTED_ERROR\<close> that a transport
  failure gets.
\<close>

theorem other_remote_error_is_not_unexpected:
  "br_error_code (fst (add_contact_to_list ''2026-01-05''
        (Raises (ApiException 500 ''Internal Server Error'' ''{}'' ''(500)'')) ''ada@x.com''
        None None 1)) = Some ''BREVO_API_ERROR''
   \<and> br_error_code (fst (add_contact_to_list ''2026-01-05''
        (Raises (PyException ''Connection timed out'')) ''ada@x.com'' None None 1))
       = Some ''BREVO_UNEXPECTED_ERROR''
   \<and> br_error_code (fst (add_contact_to_list ''2026-01-05''
        (Raises (ApiException 500 ''Internal Server Error'' ''{}'' ''(500)'')) ''ada@x.com''
        None None 1))
     \<noteq> br_error_code (fst (add_contact_to_list ''2026-01-05''
        (Raises (PyException ''Connection timed out'')) ''ada@x.com'' None None 1))"
  by (simp add: add_contact_to_list_def)

text \<open>
  Claim C4, amended. For every input \<open>add_contact_to_list\<close> returns an outcome that is
  either \<open>SUCCESS\<close> without error code or \<open>FAILED\<close> with one of four error codes. When
  the name can be split (the request reaches the contact API), an \<open>ApiException\<close> with
  status 400 whose body says that the contact exists gives \<open>SUCCESS\<close>; status 401 gives
  \<open>FAILED\<close> with \<open>BREVO_AUTH_FAILED\<close>; status 404 gives \<open>FAILED\<close> with
  \<open>BREVO_LIST_NOT_FOUND\<close>; any other \<open>ApiException\<close> gives \<open>FAILED\<close> with
  \<open>BREVO_API_ERROR\<close>; and an exception that is not an \<open>ApiException\<close> gives \<open>FAILED\<close>
  with \<open>BREVO_UNEXPECTED_ERROR\<close>.
\<close>

theorem add_contact_to_list_classifies:
  "(br_status (fst (add_contact_to_list sd reply e n ref pos)) = SUCCESS
       \<and> br_error_code (fst (add_contact_to_list sd reply e n ref pos)) = None
     \<or> br_status (fst (add_contact_to_list sd reply e n ref pos)) = FAILED
       \<and> br_error_code (fst (add_contact_to_list sd reply e n ref pos))
           \<in> {Some ''BREVO_AUTH_FAILED'', Some ''BREVO_LIST_NOT_FOUND'',
              Some ''BREVO_API_ERROR'', Some ''BREVO_UNEXPECTED_ERROR''})
   \<and> (name_attributes n = Inr attrs \<longrightarrow>
        fst (add_contact_to_list sd (Raises (ApiException st reason body t)) e n ref pos) =
          (if st = 400 \<and> str_in ''Contact already exist'' body then
             \<lparr>br_status = SUCCESS, br_contact_id = None,
              br_message = Some ''Contact already exists in Brevo'',
              br_error = None, br_error_code = None\<rparr>
           else if st = 401 then
             \<lparr>br_status = FAILED, br_contact_id = None, br_message = None,
              br_error = Some ''Authentication failed'',
              br_error_code = Some ''BREVO_AUTH_FAILED''\<rparr>
           else if st = 404 then
             \<lparr>br_status = FAILED, br_contact_id = None, br_message = None,
              br_error = Some ''List not found'',
              br_error_code = Some ''BREVO_LIST_NOT_FOUND''\<rparr>
           else
             \<lparr>br_status = FAILED, br_contact_id = None, br_message = None,
              br_error = Some (''API error: '' @ reason),
              br_error_code = Some ''BREVO_API_ERROR''\<rparr>)
        \<and> br_status (fst (add_contact_to_list sd (Raises (PyException t)) e n ref pos)) = FAILED
        \<and> br_error_code (fst (add_contact_to_list sd (Raises (PyException t)) e n ref pos))
            = Some ''BREVO_UNEXPECTED_ERROR'')"
proof -
  have total: "br_status (sync_failure ex) = SUCCESS \<and> br_error_code (sync_failure ex) = None
     \<or> br_status (sync_failure ex) = FAILED
       \<and> br_error_code (sync_failure ex)
           \<in> {Some ''BREVO_AUTH_FAILED'', Some ''BREVO_LIST_NOT_FOUND'',
              Some ''BREVO_API_ERROR'', Some ''BREVO_UNEXPECTED_ERROR''}" for ex
    by (cases ex) simp_all
  have a: "br_status (fst (add_contact_to_list sd reply e n ref pos)) = SUCCESS
       \<and> br_error_code (fst (add_contact_to_list sd reply e n ref pos)) = None
     \<or> br_status (fst (add_contact_to_list sd reply e n ref pos)) = FAILED
       \<and> br_error_code (fst (add_contact_to_list sd reply e n ref pos))
           \<in> {Some ''BREVO_AUTH_FAILED'', Some ''BREVO_LIST_NOT_FOUND'',
              Some ''BREVO_API_ERROR'', Some ''BREVO_UNEXPECTED_ERROR''}"
  proof (cases "name_attributes n")
    case (Inl ex)
    with total [of ex] show ?thesis by (simp add: add_contact_to_list_def)
  next
    case (Inr name_attrs)
    show ?thesis
    proof (cases reply)
      case (Returns contact)
      then show ?thesis by (simp add: add_contact_to_list_sent [OF Inr])
    next
      case (Raises ex)
      with total [of ex] show ?thesis by (simp add: add_contact_to_list_sent [OF Inr])
    qed
  qed
  have b: "name_attributes n = Inr attrs \<longrightarrow>
        fst (add_contact_to_list sd (Raises (ApiException st reason body t)) e n ref pos) =
          (if st = 400 \<and> str_in ''Contact already exist'' body then
             \<lparr>br_status = SUCCESS, br_contact_id = None,
              br_message = Some ''Contact already exists in Brevo'',
              br_error = None, br_error_code = None\<rparr>
           else if st = 401 then
             \<lparr>br_status = FAILED, br_contact_id = None, br_message = None,
              br_error = Some ''Authentication failed'',
              br_error_code = Some ''BREVO_AUTH_FAILED''\<rparr>
           else if st = 404 then
             \<lparr>br_status = FAILED, br_contact_id = None, br_message = None,
              br_error = Some ''List not found'',
              br_error_code = Some ''BREVO_LIST_NOT_FOUND''\<rparr>
           else
             \<lparr>br_status = FAILED, br_contact_id = None, br_message = None,
              br_error = Some (''API error: '' @ reason),
              br_error_code = Some ''BREVO_API_ERROR''\<rparr>)
        \<and> br_status (fst (add_contact_to_list sd (Raises (PyException t)) e n ref pos)) = FAILED
        \<and> br_error_code (fst (add_contact_to_list sd (Raises (PyException t)) e n ref pos))
            = Some ''BREVO_UNEXPECTED_ERROR''"
    by (simp add: add_contact_to_list_sent)
  from a b show ?thesis by (intro conjI)
qed

text \<open>The amended claim C4 at a request with a name and a remote status 401.\<close>

theorem add_contact_to_list_classifies_witness:
  "name_attributes (Some ''Ada Lovelace'')
     = Inr [(''FIRSTNAME'', JStr ''Ada''), (''LASTNAME'', JStr ''Lovelace'')]
   \<and> fst (add_contact_to_list ''2026-01-05''
        (Raises (ApiException 401 ''Unauthorized'' ''{}'' ''(401)'')) ''ada@x.com''
        (Some ''Ada Lovelace'') None 1) =
       \<lparr>br_status = FAILED, br_contact_id = None, br_message = None,
        br_error = Some ''Authentication failed'', br_error_code = Some ''BREVO_AUTH_FAILED''\<rparr>"
proof -
  have h: "name_attributes (Some ''Ada Lovelace'')
     = Inr [(''FIRSTNAME'', JStr ''Ada''), (''LASTNAME'', JStr ''Lovelace'')]"
    by (simp add: split_maxsplit1_def isspace_def)
  from add_contact_to_list_classifies [of "''2026-01-05''" _ "''ada@x.com''"
      "Some ''Ada Lovelace''" None 1 _ 401 "''Unauthorized''" "''{}''" "''(401)''"] h
  have "fst (add_contact_to_list ''2026-01-05''
        (Raises (ApiException 401 ''Unauthorized'' ''{}'' ''(401)'')) ''ada@x.com''
        (Some ''Ada Lovelace'') None 1) =
        \<lparr>br_status = FAILED, br_contact_id = None, br_message = None,
         br_error = Some ''Authentication failed'', br_error_code = Some ''BREVO_AUTH_FAILED''\<rparr>"
    by simp
  with h show ?thesis by simp
qed


section \<open>Duplicate submissions\<close>

text \<open>
  Claim C1. When the existence check runs and finds a row \<open>r\<close> for the email of the
  submission, \<open>add_to_waitlist\<close> returns \<open>success = False\<close> with the code
  \<open>EMAIL_ALREADY_EXISTS\<close> and the \<open>created_at\<close> of \<open>r\<close>, leaves the table as it was and
  makes no call to the contact API or to the insert. When a first submission of a new
  email is stored (no statement of the store fails, no other request inserts the email in
  between) and a second submission of the same email follows, the second one gets that
  response with the \<open>created_at\<close> of the first, changes nothing, and the table holds
  exactly one row with that email.
\<close>

theorem duplicate_submission_rejected_without_write:
  "(check_fault env = None \<and> find (\<lambda>r. email r = sub_email s) (rows d) = Some r \<longrightarrow>
      add_to_waitlist env s d =
        (Inr \<lparr>success = False, message = ''This email has already been registered!'',
              data = Some [(''email'', JStr (sub_email s)),
                           (''registered_at'', JIso (created_at r))],
              error_code = Some ''EMAIL_ALREADY_EXISTS''\<rparr>,
         d, []))
   \<and> (check_fault env1 = None \<and> count_fault env1 = None \<and> insert_fault env1 = None
       \<and> sub_email s1 \<notin> set (map email (rows d1 @ raced env1))
       \<and> check_fault env2 = None \<and> sub_email s2 = sub_email s1 \<longrightarrow>
      (let after_first = fst (snd (add_to_waitlist env1 s1 d1)) in
         add_to_waitlist env2 s2 after_first =
           (Inr \<lparr>success = False, message = ''This email has already been registered!'',
                 data = Some [(''email'', JStr (sub_email s1)),
                              (''registered_at'', JIso (now_created env1))],
                 error_code = Some ''EMAIL_ALREADY_EXISTS''\<rparr>,
            after_first, [])
         \<and> length (filter (\<lambda>r. email r = sub_email s1) (rows after_first)) = 1))"
proof (intro conjI impI)
  assume "check_fault env = None \<and> find (\<lambda>r. email r = sub_email s) (rows d) = Some r"
  then show "add_to_waitlist env s d =
        (Inr \<lparr>success = False, message = ''This email has already been registered!'',
              data = Some [(''email'', JStr (sub_email s)),
                           (''registered_at'', JIso (created_at r))],
              error_code = Some ''EMAIL_ALREADY_EXISTS''\<rparr>,
         d, [])"
    using add_to_waitlist_existing [of env s d r] by (simp add: duplicate_response_def)
next
  assume h: "check_fault env1 = None \<and> count_fault env1 = None \<and> insert_fault env1 = None
       \<and> sub_email s1 \<notin> set (map email (rows d1 @ raced env1))
       \<and> check_fault env2 = None \<and> sub_email s2 = sub_email s1"
  then have "add_to_waitlist env2 s2 (fst (snd (add_to_waitlist env1 s1 d1))) =
           (Inr (duplicate_response (sub_email s1) (now_created env1)),
            fst (snd (add_to_waitlist env1 s1 d1)), [])"
    by (intro resubmission_after_signup) simp_all
  moreover from h have "length (filter (\<lambda>r. email r = sub_email s1)
                   (rows (fst (snd (add_to_waitlist env1 s1 d1))))) = 1"
    by (intro resubmission_after_signup(2) [of env1 s1 d1 env1 s1]) simp_all
  ultimately show "let after_first = fst (snd (add_to_waitlist env1 s1 d1)) in
         add_to_waitlist env2 s2 after_first =
           (Inr \<lparr>success = False, message = ''This email has already been registered!'',
                 data = Some [(''email'', JStr (sub_email s1)),
                              (''registered_at'', JIso (now_created env1))],
                 error_code = Some ''EMAIL_ALREADY_EXISTS''\<rparr>,
            after_first, [])
         \<and> length (filter (\<lambda>r. email r = sub_email s1) (rows after_first)) = 1"
    by (simp add: Let_def duplicate_response_def)
qed

text \<open>
  Claim C1 at a table that holds the email, and at two submissions in a row on an empty
  table.
\<close>

theorem duplicate_submission_rejected_without_write_witness:
  "find (\<lambda>r. email r = ''ada@x.com'') [\<lparr>row_id = 1, email = ''ada@x.com'', name = None, referral_source = None,
       status = PENDING, brevo_contact_id = Some ''16'', brevo_sync_status = SUCCESS,
       brevo_synced_at = Some 99, created_at = 99\<rparr>] = Some \<lparr>row_id = 1, email = ''ada@x.com'', name = None, referral_source = None,
       status = PENDING, brevo_contact_id = Some ''16'', brevo_sync_status = SUCCESS,
       brevo_synced_at = Some 99, created_at = 99\<rparr>
   \<and> add_to_waitlist \<lparr>check_fault = None, count_fault = None, signup_date = ''2026-01-05'',
       create_contact = Returns 17, raced = [], insert_fault = None,
       now_synced = 100, now_created = 101\<rparr> \<lparr>sub_email = ''ada@x.com'', sub_name = None, sub_referral_source = None\<rparr> \<lparr>rows = [\<lparr>row_id = 1, email = ''ada@x.com'', name = None, referral_source = None,
       status = PENDING, brevo_contact_id = Some ''16'', brevo_sync_status = SUCCESS,
       brevo_synced_at = Some 99, created_at = 99\<rparr>], next_id = 2\<rparr> =
       (Inr \<lparr>success = False, message = ''This email has already been registered!'',
          data = Some [(''email'', JStr ''ada@x.com''), (''registered_at'', JIso 99)],
          error_code = Some ''EMAIL_ALREADY_EXISTS''\<rparr>, \<lparr>rows = [\<lparr>row_id = 1, email = ''ada@x.com'', name = None, referral_source = None,
       status = PENDING, brevo_contact_id = Some ''16'', brevo_sync_status = SUCCESS,
       brevo_synced_at = Some 99, created_at = 99\<rparr>], next_id = 2\<rparr>, [])
   \<and> ''ada@x.com'' \<notin> set (map email ([] :: waitlist_row list))
   \<and> add_to_waitlist \<lparr>check_fault = None, count_fault = None, signup_date = ''2026-01-05'',
       create_contact = Returns 17, raced = [], insert_fault = None,
       now_synced = 100, now_created = 101\<rparr> \<lparr>sub_email = ''ada@x.com'', sub_name = None, sub_referral_source = None\<rparr>
        (fst (snd (add_to_waitlist \<lparr>check_fault = None, count_fault = None, signup_date = ''2026-01-05'',
       create_contact = Returns 17, raced = [], insert_fault = None,
       now_synced = 100, now_created = 101\<rparr> \<lparr>sub_email = ''ada@x.com'', sub_name = None, sub_referral_source = None\<rparr> \<lparr>rows = [], next_id = 1\<rparr>))) =
       (Inr \<lparr>success = False, message = ''This email has already been registered!'',
          data = Some [(''email'', JStr ''ada@x.com''), (''registered_at'', JIso 101)],
          error_code = Some ''EMAIL_ALREADY_EXISTS''\<rparr>,
        fst (snd (add_to_waitlist \<lparr>check_fault = None, count_fault = None, signup_date = ''2026-01-05'',
       create_contact = Returns 17, raced = [], insert_fault = None,
       now_synced = 100, now_created = 101\<rparr> \<lparr>sub_email = ''ada@x.com'', sub_name = None, sub_referral_source = None\<rparr> \<lparr>rows = [], next_id = 1\<rparr>)), [])
   \<and> length (filter (\<lambda>r. email r = ''ada@x.com'')
        (rows (fst (snd (add_to_waitlist \<lparr>check_fault = None, count_fault = None, signup_date = ''2026-01-05'',
       create_contact = Returns 17, raced = [], insert_fault = None,
       now_synced = 100, now_created = 101\<rparr> \<lparr>sub_email = ''ada@x.com'', sub_name = None, sub_referral_source = None\<rparr> \<lparr>rows = [], next_id = 1\<rparr>))))) = 1"
  using duplicate_submission_rejected_without_write
    [where env = "\<lparr>check_fault = None, count_fault = None, signup_date = ''2026-01-05'',
       create_contact = Returns 17, raced = [], insert_fault = None,
       now_synced = 100, now_created = 101\<rparr>" and s = "\<lparr>sub_email = ''ada@x.com'', sub_name = None, sub_referral_source = None\<rparr>" and d = "\<lparr>rows = [\<lparr>row_id = 1, email = ''ada@x.com'', name = None, referral_source = None,
       status = PENDING, brevo_contact_id = Some ''16'', brevo_sync_status = SUCCESS,
       brevo_synced_at = Some 99, created_at = 99\<rparr>], next_id = 2\<rparr>" and r = "\<lparr>row_id = 1, email = ''ada@x.com'', name = None, referral_source = None,
       status = PENDING, brevo_contact_id = Some ''16'', brevo_sync_status = SUCCESS,
       brevo_synced_at = Some 99, created_at = 99\<rparr>"
       and ?env1.0 = "\<lparr>check_fault = None, count_fault = None, signup_date = ''2026-01-05'',
       create_contact = Returns 17, raced = [], insert_fault = None,
       now_synced = 100, now_created = 101\<rparr>" and ?s1.0 = "\<lparr>sub_email = ''ada@x.com'', sub_name = None, sub_referral_source = None\<rparr>" and ?d1.0 = "\<lparr>rows = [], next_id = 1\<rparr>"
       and ?env2.0 = "\<lparr>check_fault = None, count_fault = None, signup_date = ''2026-01-05'',
       create_contact = Returns 17, raced = [], insert_fault = None,
       now_synced = 100, now_created = 101\<rparr>" and ?s2.0 = "\<lparr>sub_email = ''ada@x.com'', sub_name = None, sub_referral_source = None\<rparr>"]
  by (simp add: Let_def)




section \<open>The insert that loses a race\<close>

text \<open>
  Claim C2, evaluated. The table is empty when the existence check runs; another request
  commits a row for \<open>ada@x.com\<close> before the insert of this request. The insert raises
  \<open>IntegrityError\<close> inside the \<open>with\<close> block, where \<open>get_db_connection\<close> replaces it by an
  \<open>HTTPException\<close> with status 500; the handler of \<open>add_waitlist_entry\<close> for
  \<open>IntegrityError\<close> never sees it. The client receives status 500 with the error
  \<open>Database operation failed\<close> and no code \<open>EMAIL_ALREADY_EXISTS\<close>.
\<close>

theorem racing_duplicate_reported_as_generic_failure:
  "post_waitlist
     \<lparr>check_fault = None, count_fault = None, signup_date = ''2026-01-05'',
      create_contact = Returns 17,
      raced = [\<lparr>row_id = 1, email = ''ada@x.com'', name = None, referral_source = None,
                status = PENDING, brevo_contact_id = Some ''16'', brevo_sync_status = SUCCESS,
                brevo_synced_at = Some 99, created_at = 99\<rparr>],
      insert_fault = None, now_synced = 100, now_created = 101\<rparr>
     \<lparr>sub_email = ''ada@x.com'', sub_name = None, sub_referral_source = None\<rparr>
     \<lparr>rows = [], next_id = 1\<rparr>
   = (500, JObj [(''success'', JBool False), (''error'', JStr ''Database operation failed''),
                 (''status_code'', JInt 500)])"
  by (simp add: post_waitlist_def add_to_waitlist_def check_email_exists_ok
      get_waitlist_count_ok select_by_email_def add_contact_to_list_def
      add_waitlist_entry_duplicate http_exception_handler_def)


section \<open>Sync before store\<close>

text \<open>
  Claim C3. Let the email of a submission be new (neither in the table nor inserted by
  another request in between) and let no statement of the store fail. Then the request to
  the contact API is made first and the call of \<open>add_waitlist_entry\<close> second, and nothing
  else is called; whatever the contact API does, the table gains exactly one row, for this
  email, whose \<open>brevo_sync_status\<close> is the status that \<open>add_contact_to_list\<close> returned; the
  response has \<open>success = True\<close>, carries that status, and its message ends with the
  warning exactly when the status is \<open>FAILED\<close>. In particular, when the contact API
  answers 401, the row is stored with \<open>FAILED\<close> and the response has \<open>success = True\<close>, the
  message with the warning and the status \<open>failed\<close>.
\<close>

theorem signup_stored_whatever_the_sync_outcome:
  assumes "check_fault env = None" and "count_fault env = None" and "insert_fault env = None"
    and "email_must_be_lowercase v \<notin> set (map email (rows d @ raced env))"
  shows
   "(\<exists>attrs. snd (snd (add_to_waitlist env (validated v n ref) d)) =
        [CreateContact (email_must_be_lowercase v) attrs,
         AddWaitlistEntry (email_must_be_lowercase v)])
    \<and> rows (fst (snd (add_to_waitlist env (validated v n ref) d))) \<noteq> []
    \<and> butlast (rows (fst (snd (add_to_waitlist env (validated v n ref) d)))) = rows d @ raced env
    \<and> email (last (rows (fst (snd (add_to_waitlist env (validated v n ref) d)))))
        = email_must_be_lowercase v
    \<and> brevo_sync_status (last (rows (fst (snd (add_to_waitlist env (validated v n ref) d)))))
        = br_status (fst (add_contact_to_list (signup_date env) (create_contact env)
            (email_must_be_lowercase v) (name_must_be_clean n) ref (length (rows d) + 1)))
    \<and> (\<exists>resp kvs. fst (add_to_waitlist env (validated v n ref) d) = Inr resp
          \<and> success resp \<and> error_code resp = None
          \<and> message resp = added_message @
              (if br_status (fst (add_contact_to_list (signup_date env) (create_contact env)
                    (email_must_be_lowercase v) (name_must_be_clean n) ref (length (rows d) + 1)))
                  = FAILED
               then warning_message else [])
          \<and> data resp = Some kvs
          \<and> dict_get kvs ''brevo_sync_status'' =
              JStr (sync_status_value
                (br_status (fst (add_contact_to_list (signup_date env) (create_contact env)
                    (email_must_be_lowercase v) (name_must_be_clean n) ref (length (rows d) + 1))))))
    \<and> brevo_sync_status (last (rows (fst (snd (add_to_waitlist
          (env\<lparr>create_contact := Raises (ApiException 401 reason body t)\<rparr>)
          (validated v n ref) d))))) = FAILED
    \<and> (\<exists>resp kvs. fst (add_to_waitlist
          (env\<lparr>create_contact := Raises (ApiException 401 reason body t)\<rparr>)
          (validated v n ref) d) = Inr resp
          \<and> success resp
          \<and> message resp = added_message @ warning_message
          \<and> data resp = Some kvs
          \<and> dict_get kvs ''brevo_sync_status'' = JStr ''failed'')"
proof -
  let ?s = "validated v n ref"
  let ?env' = "env\<lparr>create_contact := Raises (ApiException 401 reason body t)\<rparr>"
  from assms(4) have fresh: "sub_email ?s \<notin> set (map email (rows d @ raced env))" by simp
  note new = add_to_waitlist_new [OF assms(1-3) fresh]
  have sync: "sync_of env ?s d = add_contact_to_list (signup_date env) (create_contact env)
      (email_must_be_lowercase v) (name_must_be_clean n) ref (length (rows d) + 1)"
    by (simp add: sync_of_def)
  from sync_of_validated [of env v n ref d] obtain attrs
    where evs: "snd (sync_of env ?s d) = [CreateContact (email_must_be_lowercase v) attrs]"
    by auto
  have a: "\<exists>attrs. snd (snd (add_to_waitlist env ?s d)) =
        [CreateContact (email_must_be_lowercase v) attrs,
         AddWaitlistEntry (email_must_be_lowercase v)]"
    by (simp add: new evs)
  have b: "rows (fst (snd (add_to_waitlist env ?s d))) \<noteq> []
    \<and> butlast (rows (fst (snd (add_to_waitlist env ?s d)))) = rows d @ raced env"
    by (simp add: new butlast_append)
  have c: "email (last (rows (fst (snd (add_to_waitlist env ?s d))))) = email_must_be_lowercase v"
    by (simp add: new)
  have d: "brevo_sync_status (last (rows (fst (snd (add_to_waitlist env ?s d)))))
        = br_status (fst (add_contact_to_list (signup_date env) (create_contact env)
            (email_must_be_lowercase v) (name_must_be_clean n) ref (length (rows d) + 1)))"
    by (simp add: new stored_row_def sync)
  have e: "\<exists>resp kvs. fst (add_to_waitlist env ?s d) = Inr resp
          \<and> success resp \<and> error_code resp = None
          \<and> message resp = added_message @
              (if br_status (fst (add_contact_to_list (signup_date env) (create_contact env)
                    (email_must_be_lowercase v) (name_must_be_clean n) ref (length (rows d) + 1)))
                  = FAILED
               then warning_message else [])
          \<and> data resp = Some kvs
          \<and> dict_get kvs ''brevo_sync_status'' =
              JStr (sync_status_value
                (br_status (fst (add_contact_to_list (signup_date env) (create_contact env)
                    (email_must_be_lowercase v) (name_must_be_clean n) ref (length (rows d) + 1)))))"
    by (simp add: new sync)
  have fresh': "sub_email ?s \<notin> set (map email (rows d @ raced ?env'))" using assms(4) by simp
  have new': "add_to_waitlist ?env' ?s d = (Inr \<lparr>success = True,
          message = added_message @
            (if br_status (fst (sync_of ?env' ?s d)) = FAILED then warning_message else []),
          data = Some [(''email'', JStr (sub_email ?s)),
                       (''name'', opt_str (sub_name ?s)),
                       (''position'',
                        JInt (int (Suc (length (filter (\<lambda>r. created_at r \<le> now_created ?env')
                                                     (rows d @ raced ?env')))))),
                       (''registered_at'', JIso (now_created ?env')),
                       (''brevo_sync_status'',
                        JStr (sync_status_value (br_status (fst (sync_of ?env' ?s d)))))],
          error_code = None\<rparr>,
     \<lparr>rows = rows d @ raced ?env' @ [stored_row ?env' ?s d],
      next_id = next_id d + length (raced ?env') + 1\<rparr>,
     snd (sync_of ?env' ?s d) @ [AddWaitlistEntry (sub_email ?s)])"
    by (rule add_to_waitlist_new) (insert assms, simp_all)
  from sync_of_validated [of ?env' v n ref d]
  have failed: "br_status (fst (sync_of ?env' ?s d)) = FAILED" by auto
  have f: "brevo_sync_status (last (rows (fst (snd (add_to_waitlist ?env' ?s d))))) = FAILED"
    by (simp add: new' stored_row_def failed)
  have g: "\<exists>resp kvs. fst (add_to_waitlist ?env' ?s d) = Inr resp
          \<and> success resp
          \<and> message resp = added_message @ warning_message
          \<and> data resp = Some kvs
          \<and> dict_get kvs ''brevo_sync_status'' = JStr ''failed''"
    by (simp add: new' failed)
  show ?thesis using a b c d e f g by blast
qed

text \<open>
  Claim C3 at a submission of \<open>"Ada@x.com"\<close> on an empty table while the contact API
  answers 401.
\<close>

theorem signup_stored_whatever_the_sync_outcome_witness:
  "email_must_be_lowercase ''Ada@x.com'' = ''ada@x.com''
   \<and> ''ada@x.com'' \<notin> set (map email ([] :: waitlist_row list))
   \<and> brevo_sync_status (last (rows (fst (snd (add_to_waitlist \<lparr>check_fault = None, count_fault = None, signup_date = ''2026-01-05'',
       create_contact = Raises (ApiException 401 ''Unauthorized'' ''{}'' ''(401)''),
       raced = [], insert_fault = None, now_synced = 100, now_created = 101\<rparr>
          (validated ''Ada@x.com'' None None) \<lparr>rows = [], next_id = 1\<rparr>))))) = FAILED
   \<and> (\<exists>resp kvs. fst (add_to_waitlist \<lparr>check_fault = None, count_fault = None, signup_date = ''2026-01-05'',
       create_contact = Raises (ApiException 401 ''Unauthorized'' ''{}'' ''(401)''),
       raced = [], insert_fault = None, now_synced = 100, now_created = 101\<rparr>
          (validated ''Ada@x.com'' None None) \<lparr>rows = [], next_id = 1\<rparr>) = Inr resp
          \<and> success resp
          \<and> message resp = added_message @ warning_message
          \<and> data resp = Some kvs
          \<and> dict_get kvs ''brevo_sync_status'' = JStr ''failed'')"
proof -
  have norm: "email_must_be_lowercase ''Ada@x.com'' = ''ada@x.com''"
    by (simp add: email_must_be_lowercase_def lower_def lower_char_def strip_def
        strip_chars_def isspace_def)
  have fresh: "email_must_be_lowercase ''Ada@x.com''
      \<notin> set (map email (rows \<lparr>rows = [], next_id = 1\<rparr> @ raced \<lparr>check_fault = None, count_fault = None, signup_date = ''2026-01-05'',
       create_contact = Raises (ApiException 401 ''Unauthorized'' ''{}'' ''(401)''),
       raced = [], insert_fault = None, now_synced = 100, now_created = 101\<rparr>))"
    by simp
  from signup_stored_whatever_the_sync_outcome
    [where env = "\<lparr>check_fault = None, count_fault = None, signup_date = ''2026-01-05'',
       create_contact = Raises (ApiException 401 ''Unauthorized'' ''{}'' ''(401)''),
       raced = [], insert_fault = None, now_synced = 100, now_created = 101\<rparr>" and v = "''Ada@x.com''" and d = "\<lparr>rows = [], next_id = 1\<rparr>" and n = None and ref = None
       and reason = "''Unauthorized''" and body = "''{}''" and t = "''(401)''",
     OF _ _ _ fresh]
  have "brevo_sync_status (last (rows (fst (snd (add_to_waitlist \<lparr>check_fault = None, count_fault = None, signup_date = ''2026-01-05'',
       create_contact = Raises (ApiException 401 ''Unauthorized'' ''{}'' ''(401)''),
       raced = [], insert_fault = None, now_synced = 100, now_created = 101\<rparr>
          (validated ''Ada@x.com'' None None) \<lparr>rows = [], next_id = 1\<rparr>))))) = FAILED
   \<and> (\<exists>resp kvs. fst (add_to_waitlist \<lparr>check_fault = None, count_fault = None, signup_date = ''2026-01-05'',
       create_contact = Raises (ApiException 401 ''Unauthorized'' ''{}'' ''(401)''),
       raced = [], insert_fault = None, now_synced = 100, now_created = 101\<rparr>
          (validated ''Ada@x.com'' None None) \<lparr>rows = [], next_id = 1\<rparr>) = Inr resp
          \<and> success resp
          \<and> message resp = added_message @ warning_message
          \<and> data resp = Some kvs
          \<and> dict_get kvs ''brevo_sync_status'' = JStr ''failed'')"
    by (simp add: add_contact_to_list_def)
  with norm show ?thesis by simp
qed


section \<open>A contact that exists remotely\<close>

text \<open>
  Claim C10. Let the contact API answer 400 with a body that says the contact exists, the
  email be new and no statement of the store fail. Then \<open>add_contact_to_list\<close> returns
  \<open>SUCCESS\<close> with no contact id, and the row that the table gains for this email has
  \<open>brevo_sync_status = SUCCESS\<close>, no \<open>brevo_contact_id\<close>, and \<open>brevo_synced_at\<close> set to the
  clock reading taken for it.
\<close>

theorem already_exists_sync_stored_without_contact_id:
  assumes "create_contact env = Raises (ApiException 400 reason body t)"
    and "str_in ''Contact already exist'' body"
    and "check_fault env = None" and "count_fault env = None" and "insert_fault env = None"
    and "email_must_be_lowercase v \<notin> set (map email (rows d @ raced env))"
  shows
   "br_status (fst (add_contact_to_list (signup_date env) (create_contact env)
        (email_must_be_lowercase v) (name_must_be_clean n) ref (length (rows d) + 1))) = SUCCESS
    \<and> br_contact_id (fst (add_contact_to_list (signup_date env) (create_contact env)
        (email_must_be_lowercase v) (name_must_be_clean n) ref (length (rows d) + 1))) = None
    \<and> rows (fst (snd (add_to_waitlist env (validated v n ref) d))) \<noteq> []
    \<and> butlast (rows (fst (snd (add_to_waitlist env (validated v n ref) d)))) = rows d @ raced env
    \<and> email (last (rows (fst (snd (add_to_waitlist env (validated v n ref) d)))))
        = email_must_be_lowercase v
    \<and> brevo_sync_status (last (rows (fst (snd (add_to_waitlist env (validated v n ref) d)))))
        = SUCCESS
    \<and> brevo_contact_id (last (rows (fst (snd (add_to_waitlist env (validated v n ref) d)))))
        = None
    \<and> brevo_synced_at (last (rows (fst (snd (add_to_waitlist env (validated v n ref) d)))))
        = Some (now_synced env)"
proof -
  let ?s = "validated v n ref"
  from assms(6) have fresh: "sub_email ?s \<notin> set (map email (rows d @ raced env))" by simp
  note new = add_to_waitlist_new [OF assms(3-5) fresh]
  have sync: "sync_of env ?s d = add_contact_to_list (signup_date env) (create_contact env)
      (email_must_be_lowercase v) (name_must_be_clean n) ref (length (rows d) + 1)"
    by (simp add: sync_of_def)
  from sync_of_validated [of env v n ref d] assms(1,2)
  have res: "fst (sync_of env ?s d) =
      \<lparr>br_status = SUCCESS, br_contact_id = None,
       br_message = Some ''Contact already exists in Brevo'',
       br_error = None, br_error_code = None\<rparr>"
    by auto
  have a: "br_status (fst (add_contact_to_list (signup_date env) (create_contact env)
        (email_must_be_lowercase v) (name_must_be_clean n) ref (length (rows d) + 1))) = SUCCESS"
    using res by (simp add: sync)
  have b: "br_contact_id (fst (add_contact_to_list (signup_date env) (create_contact env)
        (email_must_be_lowercase v) (name_must_be_clean n) ref (length (rows d) + 1))) = None"
    using res by (simp add: sync)
  have c: "rows (fst (snd (add_to_waitlist env ?s d))) \<noteq> []
    \<and> butlast (rows (fst (snd (add_to_waitlist env ?s d)))) = rows d @ raced env"
    by (simp add: new butlast_append)
  have d: "email (last (rows (fst (snd (add_to_waitlist env ?s d))))) = email_must_be_lowercase v"
    by (simp add: new)
  have e: "brevo_sync_status (last (rows (fst (snd (add_to_waitlist env ?s d))))) = SUCCESS"
    by (simp add: new stored_row_def res)
  have f: "brevo_contact_id (last (rows (fst (snd (add_to_waitlist env ?s d))))) = None"
    by (simp add: new stored_row_def res)
  have g: "brevo_synced_at (last (rows (fst (snd (add_to_waitlist env ?s d)))))
        = Some (now_synced env)"
    by (simp add: new stored_row_def res)
  show ?thesis using a b c d e f g by blast
qed

text \<open>
  Claim C10 at a submission of \<open>"Ada@x.com"\<close> on an empty table.
\<close>

theorem already_exists_sync_stored_without_contact_id_witness:
  "str_in ''Contact already exist'' ''Contact already exist''
   \<and> email_must_be_lowercase ''Ada@x.com'' = ''ada@x.com''
   \<and> ''ada@x.com'' \<notin> set (map email ([] :: waitlist_row list))
   \<and> brevo_sync_status (last (rows (fst (snd (add_to_waitlist \<lparr>check_fault = None, count_fault = None, signup_date = ''2026-01-05'',
       create_contact =
         Raises (ApiException 400 ''Bad Request'' ''Contact already exist'' ''(400)''),
       raced = [], insert_fault = None, now_synced = 100, now_created = 101\<rparr>
          (validated ''Ada@x.com'' None None) \<lparr>rows = [], next_id = 1\<rparr>))))) = SUCCESS
   \<and> brevo_contact_id (last (rows (fst (snd (add_to_waitlist \<lparr>check_fault = None, count_fault = None, signup_date = ''2026-01-05'',
       create_contact =
         Raises (ApiException 400 ''Bad Request'' ''Contact already exist'' ''(400)''),
       raced = [], insert_fault = None, now_synced = 100, now_created = 101\<rparr>
          (validated ''Ada@x.com'' None None) \<lparr>rows = [], next_id = 1\<rparr>))))) = None
   \<and> brevo_synced_at (last (rows (fst (snd (add_to_waitlist \<lparr>check_fault = None, count_fault = None, signup_date = ''2026-01-05'',
       create_contact =
         Raises (ApiException 400 ''Bad Request'' ''Contact already exist'' ''(400)''),
       raced = [], insert_fault = None, now_synced = 100, now_created = 101\<rparr>
          (validated ''Ada@x.com'' None None) \<lparr>rows = [], next_id = 1\<rparr>))))) = Some 100"
proof -
  have body: "str_in ''Contact already exist'' ''Contact already exist''"
    by simp
  have norm: "email_must_be_lowercase ''Ada@x.com'' = ''ada@x.com''"
    by (simp add: email_must_be_lowercase_def lower_def lower_char_def strip_def
        strip_chars_def isspace_def)
  have fresh: "email_must_be_lowercase ''Ada@x.com''
      \<notin> set (map email (rows \<lparr>rows = [], next_id = 1\<rparr> @ raced \<lparr>check_fault = None, count_fault = None, signup_date = ''2026-01-05'',
       create_contact =
         Raises (ApiException 400 ''Bad Request'' ''Contact already exist'' ''(400)''),
       raced = [], insert_fault = None, now_synced = 100, now_created = 101\<rparr>))"
    by simp
  from already_exists_sync_stored_without_contact_id
    [where env = "\<lparr>check_fault = None, count_fault = None, signup_date = ''2026-01-05'',
       create_contact =
         Raises (ApiException 400 ''Bad Request'' ''Contact already exist'' ''(400)''),
       raced = [], insert_fault = None, now_synced = 100, now_created = 101\<rparr>" and v = "''Ada@x.com''" and d = "\<lparr>rows = [], next_id = 1\<rparr>" and n = None and ref = None
       and reason = "''Bad Request''" and body = "''Contact already exist''" and t = "''(400)''",
     OF _ body _ _ _ fresh]
  have "brevo_sync_status (last (rows (fst (snd (add_to_waitlist \<lparr>check_fault = None, count_fault = None, signup_date = ''2026-01-05'',
       create_contact =
         Raises (ApiException 400 ''Bad Request'' ''Contact already exist'' ''(400)''),
       raced = [], insert_fault = None, now_synced = 100, now_created = 101\<rparr>
          (validated ''Ada@x.com'' None None) \<lparr>rows = [], next_id = 1\<rparr>))))) = SUCCESS
   \<and> brevo_contact_id (last (rows (fst (snd (add_to_waitlist \<lparr>check_fault = None, count_fault = None, signup_date = ''2026-01-05'',
       create_contact =
         Raises (ApiException 400 ''Bad Request'' ''Contact already exist'' ''(400)''),
       raced = [], insert_fault = None, now_synced = 100, now_created = 101\<rparr>
          (validated ''Ada@x.com'' None None) \<lparr>rows = [], next_id = 1\<rparr>))))) = None
   \<and> brevo_synced_at (last (rows (fst (snd (add_to_waitlist \<lparr>check_fault = None, count_fault = None, signup_date = ''2026-01-05'',
       create_contact =
         Raises (ApiException 400 ''Bad Request'' ''Contact already exist'' ''(400)''),
       raced = [], insert_fault = None, now_synced = 100, now_created = 101\<rparr>
          (validated ''Ada@x.com'' None None) \<lparr>rows = [], next_id = 1\<rparr>))))) = Some 100"
    by simp
  with body norm show ?thesis by simp
qed


section \<open>Position\<close>

text \<open>
  Claim C5. When \<open>add_to_waitlist\<close> answers with \<open>success = True\<close>, the row it stored has
  the \<open>created_at\<close> reported as \<open>registered_at\<close>, and the reported position is the number
  of rows of the table, as it is after the insert, whose \<open>created_at\<close> is at most that
  \<open>created_at\<close>. When requests with pairwise distinct emails and strictly increasing
  \<open>created_at\<close> run one after the other on an empty table, no statement of the store
  failing and no other request writing, the reported positions are 1, 2, ..., N in that
  order.
\<close>

theorem position_counts_rows_up_to_created_at:
  "(fst (add_to_waitlist env s d) = Inr resp \<and> success resp \<longrightarrow>
      created_at (last (rows (fst (snd (add_to_waitlist env s d))))) = now_created env
      \<and> response_field (fst (add_to_waitlist env s d)) ''registered_at'' = JIso (now_created env)
      \<and> response_field (fst (add_to_waitlist env s d)) ''position'' =
          JInt (int (length (filter (\<lambda>r. created_at r \<le> now_created env)
                       (rows (fst (snd (add_to_waitlist env s d))))))))
   \<and> (rows d0 = [] \<and> list_all (\<lambda>q. fault_free (fst q)) reqs
       \<and> distinct (map (\<lambda>q. sub_email (snd q)) reqs)
       \<and> sorted_wrt (<) (map (\<lambda>q. now_created (fst q)) reqs) \<longrightarrow>
      map (\<lambda>r. response_field r ''position'') (run_requests reqs d0) =
        map (\<lambda>i. JInt (int i)) [1 ..< length reqs + 1])"
proof (intro conjI impI)
  assume h: "fst (add_to_waitlist env s d) = Inr resp \<and> success resp"
  then have ok: "check_fault env = None" "count_fault env = None" "insert_fault env = None"
    "sub_email s \<notin> set (map email (rows d @ raced env))"
    using add_to_waitlist_success_inv [of env s d resp] by simp_all
  note new = add_to_waitlist_new [OF ok]
  show "created_at (last (rows (fst (snd (add_to_waitlist env s d))))) = now_created env"
    by (simp add: new)
  show "response_field (fst (add_to_waitlist env s d)) ''registered_at'' = JIso (now_created env)"
    by (rule position_after_signup(2) [OF ok])
  have "rows (fst (snd (add_to_waitlist env s d))) = (rows d @ raced env) @ [stored_row env s d]"
    by (simp add: new)
  then have "length (filter (\<lambda>r. created_at r \<le> now_created env)
                       (rows (fst (snd (add_to_waitlist env s d))))) =
             Suc (length (filter (\<lambda>r. created_at r \<le> now_created env) (rows d @ raced env)))"
    by simp
  with position_after_signup(1) [OF ok]
  show "response_field (fst (add_to_waitlist env s d)) ''position'' =
          JInt (int (length (filter (\<lambda>r. created_at r \<le> now_created env)
                       (rows (fst (snd (add_to_waitlist env s d)))))))"
    by simp
next
  assume h: "rows d0 = [] \<and> list_all (\<lambda>q. fault_free (fst q)) reqs
       \<and> distinct (map (\<lambda>q. sub_email (snd q)) reqs)
       \<and> sorted_wrt (<) (map (\<lambda>q. now_created (fst q)) reqs)"
  then have "map (\<lambda>r. response_field r ''position'') (run_requests reqs d0) =
         map (\<lambda>i. JInt (int i)) [Suc (length (rows d0)) ..< Suc (length (rows d0)) + length reqs]"
    by (intro run_requests_positions) simp_all
  with h show "map (\<lambda>r. response_field r ''position'') (run_requests reqs d0) =
        map (\<lambda>i. JInt (int i)) [1 ..< length reqs + 1]"
    by (simp del: upt_Suc)
qed

text \<open>
  Claim C5 at two submissions on an empty table, the second while the contact API is
  unreachable.
\<close>

theorem position_counts_rows_up_to_created_at_witness:
  "fst (add_to_waitlist \<lparr>check_fault = None, count_fault = None, signup_date = ''2026-01-05'',
       create_contact = Returns 17, raced = [], insert_fault = None,
       now_synced = 100, now_created = 101\<rparr> \<lparr>sub_email = ''ada@x.com'', sub_name = None, sub_referral_source = None\<rparr> \<lparr>rows = [], next_id = 1\<rparr>) =
     Inr \<lparr>success = True, message = added_message,
          data = Some [(''email'', JStr ''ada@x.com''), (''name'', JNull),
                       (''position'', JInt 1), (''registered_at'', JIso 101),
                       (''brevo_sync_status'', JStr ''success'')],
          error_code = None\<rparr>
   \<and> response_field (fst (add_to_waitlist \<lparr>check_fault = None, count_fault = None, signup_date = ''2026-01-05'',
       create_contact = Returns 17, raced = [], insert_fault = None,
       now_synced = 100, now_created = 101\<rparr> \<lparr>sub_email = ''ada@x.com'', sub_name = None, sub_referral_source = None\<rparr> \<lparr>rows = [], next_id = 1\<rparr>)) ''position'' =
       JInt (int (length (filter (\<lambda>r. created_at r \<le> 101)
                    (rows (fst (snd (add_to_waitlist \<lparr>check_fault = None, count_fault = None, signup_date = ''2026-01-05'',
       create_contact = Returns 17, raced = [], insert_fault = None,
       now_synced = 100, now_created = 101\<rparr> \<lparr>sub_email = ''ada@x.com'', sub_name = None, sub_referral_source = None\<rparr> \<lparr>rows = [], next_id = 1\<rparr>)))))))
   \<and> list_all (\<lambda>q. fault_free (fst q)) [(\<lparr>check_fault = None, count_fault = None, signup_date = ''2026-01-05'',
       create_contact = Returns 17, raced = [], insert_fault = None,
       now_synced = 100, now_created = 101\<rparr>, \<lparr>sub_email = ''ada@x.com'', sub_name = None, sub_referral_source = None\<rparr>), (\<lparr>check_fault = None, count_fault = None, signup_date = ''2026-01-05'',
       create_contact = Raises (PyException ''Connection timed out''), raced = [],
       insert_fault = None, now_synced = 200, now_created = 201\<rparr>, \<lparr>sub_email = ''bob@x.com'', sub_name = None, sub_referral_source = None\<rparr>)]
   \<and> distinct (map (\<lambda>q. sub_email (snd q)) [(\<lparr>check_fault = None, count_fault = None, signup_date = ''2026-01-05'',
       create_contact = Returns 17, raced = [], insert_fault = None,
       now_synced = 100, now_created = 101\<rparr>, \<lparr>sub_email = ''ada@x.com'', sub_name = None, sub_referral_source = None\<rparr>), (\<lparr>check_fault = None, count_fault = None, signup_date = ''2026-01-05'',
       create_contact = Raises (PyException ''Connection timed out''), raced = [],
       insert_fault = None, now_synced = 200, now_created = 201\<rparr>, \<lparr>sub_email = ''bob@x.com'', sub_name = None, sub_referral_source = None\<rparr>)])
   \<and> sorted_wrt (<) (map (\<lambda>q. now_created (fst q)) [(\<lparr>check_fault = None, count_fault = None, signup_date = ''2026-01-05'',
       create_contact = Returns 17, raced = [], insert_fault = None,
       now_synced = 100, now_created = 101\<rparr>, \<lparr>sub_email = ''ada@x.com'', sub_name = None, sub_referral_source = None\<rparr>), (\<lparr>check_fault = None, count_fault = None, signup_date = ''2026-01-05'',
       create_contact = Raises (PyException ''Connection timed out''), raced = [],
       insert_fault = None, now_synced = 200, now_created = 201\<rparr>, \<lparr>sub_email = ''bob@x.com'', sub_name = None, sub_referral_source = None\<rparr>)])
   \<and> map (\<lambda>r. response_field r ''position'')
        (run_requests [(\<lparr>check_fault = None, count_fault = None, signup_date = ''2026-01-05'',
       create_contact = Returns 17, raced = [], insert_fault = None,
       now_synced = 100, now_created = 101\<rparr>, \<lparr>sub_email = ''ada@x.com'', sub_name = None, sub_referral_source = None\<rparr>), (\<lparr>check_fault = None, count_fault = None, signup_date = ''2026-01-05'',
       create_contact = Raises (PyException ''Connection timed out''), raced = [],
       insert_fault = None, now_synced = 200, now_created = 201\<rparr>, \<lparr>sub_email = ''bob@x.com'', sub_name = None, sub_referral_source = None\<rparr>)] \<lparr>rows = [], next_id = 1\<rparr>) = [JInt 1, JInt 2]"
proof -
  have first: "fst (add_to_waitlist \<lparr>check_fault = None, count_fault = None, signup_date = ''2026-01-05'',
       create_contact = Returns 17, raced = [], insert_fault = None,
       now_synced = 100, now_created = 101\<rparr> \<lparr>sub_email = ''ada@x.com'', sub_name = None, sub_referral_source = None\<rparr> \<lparr>rows = [], next_id = 1\<rparr>) =
     Inr \<lparr>success = True, message = added_message,
          data = Some [(''email'', JStr ''ada@x.com''), (''name'', JNull),
                       (''position'', JInt 1), (''registered_at'', JIso 101),
                       (''brevo_sync_status'', JStr ''success'')],
          error_code = None\<rparr>"
    by (simp add: add_to_waitlist_def check_email_exists_ok get_waitlist_count_ok
        select_by_email_def add_contact_to_list_def add_waitlist_entry_new)
  have hyps: "list_all (\<lambda>q. fault_free (fst q)) [(\<lparr>check_fault = None, count_fault = None, signup_date = ''2026-01-05'',
       create_contact = Returns 17, raced = [], insert_fault = None,
       now_synced = 100, now_created = 101\<rparr>, \<lparr>sub_email = ''ada@x.com'', sub_name = None, sub_referral_source = None\<rparr>), (\<lparr>check_fault = None, count_fault = None, signup_date = ''2026-01-05'',
       create_contact = Raises (PyException ''Connection timed out''), raced = [],
       insert_fault = None, now_synced = 200, now_created = 201\<rparr>, \<lparr>sub_email = ''bob@x.com'', sub_name = None, sub_referral_source = None\<rparr>)]"
    "distinct (map (\<lambda>q. sub_email (snd q)) [(\<lparr>check_fault = None, count_fault = None, signup_date = ''2026-01-05'',
       create_contact = Returns 17, raced = [], insert_fault = None,
       now_synced = 100, now_created = 101\<rparr>, \<lparr>sub_email = ''ada@x.com'', sub_name = None, sub_referral_source = None\<rparr>), (\<lparr>check_fault = None, count_fault = None, signup_date = ''2026-01-05'',
       create_contact = Raises (PyException ''Connection timed out''), raced = [],
       insert_fault = None, now_synced = 200, now_created = 201\<rparr>, \<lparr>sub_email = ''bob@x.com'', sub_name = None, sub_referral_source = None\<rparr>)])"
    "sorted_wrt (<) (map (\<lambda>q. now_created (fst q)) [(\<lparr>check_fault = None, count_fault = None, signup_date = ''2026-01-05'',
       create_contact = Returns 17, raced = [], insert_fault = None,
       now_synced = 100, now_created = 101\<rparr>, \<lparr>sub_email = ''ada@x.com'', sub_name = None, sub_referral_source = None\<rparr>), (\<lparr>check_fault = None, count_fault = None, signup_date = ''2026-01-05'',
       create_contact = Raises (PyException ''Connection timed out''), raced = [],
       insert_fault = None, now_synced = 200, now_created = 201\<rparr>, \<lparr>sub_email = ''bob@x.com'', sub_name = None, sub_referral_source = None\<rparr>)])"
    by (simp_all add: fault_free_def)
  note inst = position_counts_rows_up_to_created_at
    [where env = "\<lparr>check_fault = None, count_fault = None, signup_date = ''2026-01-05'',
       create_contact = Returns 17, raced = [], insert_fault = None,
       now_synced = 100, now_created = 101\<rparr>" and s = "\<lparr>sub_email = ''ada@x.com'', sub_name = None, sub_referral_source = None\<rparr>" and d = "\<lparr>rows = [], next_id = 1\<rparr>"
       and resp = "\<lparr>success = True, message = added_message,
          data = Some [(''email'', JStr ''ada@x.com''), (''name'', JNull),
                       (''position'', JInt 1), (''registered_at'', JIso 101),
                       (''brevo_sync_status'', JStr ''success'')],
          error_code = None\<rparr>"
       and ?d0.0 = "\<lparr>rows = [], next_id = 1\<rparr>" and reqs = "[(\<lparr>check_fault = None, count_fault = None, signup_date = ''2026-01-05'',
       create_contact = Returns 17, raced = [], insert_fault = None,
       now_synced = 100, now_created = 101\<rparr>, \<lparr>sub_email = ''ada@x.com'', sub_name = None, sub_referral_source = None\<rparr>), (\<lparr>check_fault = None, count_fault = None, signup_date = ''2026-01-05'',
       create_contact = Raises (PyException ''Connection timed out''), raced = [],
       insert_fault = None, now_synced = 200, now_created = 201\<rparr>, \<lparr>sub_email = ''bob@x.com'', sub_name = None, sub_referral_source = None\<rparr>)]"]
  from inst first have pos: "response_field (fst (add_to_waitlist \<lparr>check_fault = None, count_fault = None, signup_date = ''2026-01-05'',
       create_contact = Returns 17, raced = [], insert_fault = None,
       now_synced = 100, now_created = 101\<rparr> \<lparr>sub_email = ''ada@x.com'', sub_name = None, sub_referral_source = None\<rparr> \<lparr>rows = [], next_id = 1\<rparr>)) ''position'' =
       JInt (int (length (filter (\<lambda>r. created_at r \<le> 101)
                    (rows (fst (snd (add_to_waitlist \<lparr>check_fault = None, count_fault = None, signup_date = ''2026-01-05'',
       create_contact = Returns 17, raced = [], insert_fault = None,
       now_synced = 100, now_created = 101\<rparr> \<lparr>sub_email = ''ada@x.com'', sub_name = None, sub_referral_source = None\<rparr> \<lparr>rows = [], next_id = 1\<rparr>)))))))"
    by simp
  from inst hyps have seq: "map (\<lambda>r. response_field r ''position'')
        (run_requests [(\<lparr>check_fault = None, count_fault = None, signup_date = ''2026-01-05'',
       create_contact = Returns 17, raced = [], insert_fault = None,
       now_synced = 100, now_created = 101\<rparr>, \<lparr>sub_email = ''ada@x.com'', sub_name = None, sub_referral_source = None\<rparr>), (\<lparr>check_fault = None, count_fault = None, signup_date = ''2026-01-05'',
       create_contact = Raises (PyException ''Connection timed out''), raced = [],
       insert_fault = None, now_synced = 200, now_created = 201\<rparr>, \<lparr>sub_email = ''bob@x.com'', sub_name = None, sub_referral_source = None\<rparr>)] \<lparr>rows = [], next_id = 1\<rparr>) = [JInt 1, JInt 2]"
    by (simp add: upt_conv_Cons del: upt_Suc)
  from first pos hyps seq show ?thesis by blast
qed


section \<open>What the client sees of an exception\<close>




end
